theory Spec2Isabelle
  imports Main "HOL-Library.Word"
begin

section \<open>JavaScript values used by the verification code\<close>

text \<open>
  Optional string fields of the TypeScript interfaces (\<^verbatim>\<open>text?: string\<close>) are
  \<open>string option\<close>; \<open>None\<close> is \<^verbatim>\<open>undefined\<close>. The source tests such fields
  with JavaScript truthiness (\<^verbatim>\<open>a || b\<close>, \<^verbatim>\<open>if (x)\<close>, \<^verbatim>\<open>x ? a : b\<close>): a string is
  truthy when it is defined and not the empty string.
\<close>

definition truthy :: "string option \<Rightarrow> bool" where
  "truthy v = (case v of None \<Rightarrow> False | Some s \<Rightarrow> s \<noteq> [])"

text \<open>\<^verbatim>\<open>a || b\<close> on two optional strings.\<close>

definition js_or :: "string option \<Rightarrow> string option \<Rightarrow> string option" where
  "js_or a b = (if truthy a then a else b)"

text \<open>\<^verbatim>\<open>a || d\<close> where \<open>d\<close> is a string that is always defined.\<close>

definition js_or_str :: "string option \<Rightarrow> string \<Rightarrow> string" where
  "js_or_str a d = (case a of None \<Rightarrow> d | Some s \<Rightarrow> if s = [] then d else s)"

text \<open>
  \<^verbatim>\<open>String.prototype.toLowerCase\<close> on the ASCII range, which holds every
  character of a hex address.
\<close>

definition lower_char :: "char \<Rightarrow> char" where
  "lower_char c =
     (case map_of (zip ''ABCDEFGHIJKLMNOPQRSTUVWXYZ'' ''abcdefghijklmnopqrstuvwxyz'') c of
        None \<Rightarrow> c
      | Some l \<Rightarrow> l)"

definition toLowerCase :: "string \<Rightarrow> string" where
  "toLowerCase s = map lower_char s"

text \<open>
  \<^verbatim>\<open>s.split(":")\<close>: the fields between the colons; the empty string has the one
  field \<open>''''\<close>.
\<close>

fun split_colon :: "string \<Rightarrow> string list" where
  "split_colon [] = [[]]"
| "split_colon (c # cs) =
     (if c = CHR '':'' then [] # split_colon cs
      else (case split_colon cs of [] \<Rightarrow> [[c]] | p # ps \<Rightarrow> (c # p) # ps))"

text \<open>
  A thrown value is an \<^verbatim>\<open>Error\<close> object with a name and a message;
  \<^verbatim>\<open>String(e)\<close> is \<^verbatim>\<open>Error.prototype.toString\<close>, and \<^verbatim>\<open>String(undefined)\<close>
  is \<open>''undefined''\<close>.
\<close>

datatype thrown = JsError string string

definition new_Error :: "string \<Rightarrow> thrown" where
  "new_Error msg = JsError ''Error'' msg"

fun String_thrown :: "thrown \<Rightarrow> string" where
  "String_thrown (JsError name msg) =
     (if name = [] then msg else if msg = [] then name else name @ '': '' @ msg)"

definition String_opt :: "thrown option \<Rightarrow> string" where
  "String_opt e = (case e of None \<Rightarrow> ''undefined'' | Some t \<Rightarrow> String_thrown t)"

text \<open>Decimal rendering of a number in a template literal (\<^verbatim>\<open>${res.status}\<close>).\<close>

definition digit_char :: "nat \<Rightarrow> char" where
  "digit_char d = (if d < 10 then ''0123456789'' ! d else CHR ''?'')"

fun string_of_nat :: "nat \<Rightarrow> string" where
  "string_of_nat n =
     (if n < 10 then [digit_char n] else string_of_nat (n div 10) @ [digit_char (n mod 10)])"

declare string_of_nat.simps [simp del]

section \<open>Data model (\<^verbatim>\<open>types/verification.ts\<close>)\<close>

text \<open>
  Field names carry a prefix where the source uses the same name for a field of another
  interface or for a local variable of \<^verbatim>\<open>verifyMessage\<close>.
\<close>

record NrasResult =
  success :: bool
  message :: "string option"

record SignatureResponse =
  sig_chatId :: "string option"
  sig_model :: string
  sig_signature :: string
  signedHash :: "string option"
  sig_text :: "string option"
  signerPublicKey :: "string option"
  signing_address :: "string option"
  algorithm :: "string option"
  signing_algo :: "string option"
  timestamp :: "string option"
  sig_nrasResult :: "NrasResult option"

record AttestationResponse =
  att_model :: string
  attestationDocument :: "string option"
  jwt :: "string option"
  enclaveIdentity :: "string option"
  att_signing_address :: "string option"
  intel_quote :: "string option"
  att_nrasResult :: "NrasResult option"

record VerificationData =
  vd_chatId :: string
  vd_model :: string
  vd_requestHash :: string
  vd_responseHash :: string
  vd_signature :: "SignatureResponse option"
  vd_attestation :: "AttestationResponse option"
  vd_verified :: bool
  vd_fetchedAt :: "string option"
  vd_error :: "string option"

section \<open>Hashing (\<^verbatim>\<open>computeHash\<close>, \<^verbatim>\<open>lib/verification.ts\<close>)\<close>

text \<open>
  The digest itself is the platform's \<^verbatim>\<open>crypto.subtle.digest("SHA-256", _)\<close>; it is
  a parameter \<open>sha256\<close> of the model. A \<open>string\<close> stands for the UTF-8 bytes that
  \<^verbatim>\<open>TextEncoder.encode\<close> produces. The hex rendering is the source's own:
  \<^verbatim>\<open>b.toString(16).padStart(2, "0")\<close> for each byte, joined.
\<close>

type_synonym byte = "8 word"

definition encode :: "string \<Rightarrow> byte list" where
  "encode s = map of_char s"

definition hex_digit :: "nat \<Rightarrow> char" where
  "hex_digit d = (if d < 16 then ''0123456789abcdef'' ! d else CHR ''?'')"

definition toString16 :: "byte \<Rightarrow> string" where
  "toString16 b =
     (let n = unat b in
      if n < 16 then [hex_digit n] else [hex_digit (n div 16), hex_digit (n mod 16)])"

definition padStart2 :: "string \<Rightarrow> string" where
  "padStart2 s = replicate (2 - length s) CHR ''0'' @ s"

definition computeHash :: "(byte list \<Rightarrow> byte list) \<Rightarrow> string \<Rightarrow> string" where
  "computeHash sha256 data = concat (map (\<lambda>b. padStart2 (toString16 b)) (sha256 (encode data)))"

section \<open>Signature validation (\<^verbatim>\<open>validateSignature\<close>, \<^verbatim>\<open>lib/verification-service.ts\<close>)\<close>

text \<open>
  \<^verbatim>\<open>ethers.verifyMessage(message, signature)\<close> is the library's public-key recovery;
  it is the parameter \<open>recover\<close>, with \<open>None\<close> when the call throws.
\<close>

definition signedPayload :: "SignatureResponse \<Rightarrow> string \<Rightarrow> string" where
  "signedPayload s expectedHash = js_or_str (sig_text s) (js_or_str (signedHash s) expectedHash)"

definition expectedAddr :: "SignatureResponse \<Rightarrow> string option" where
  "expectedAddr s = js_or (signing_address s) (js_or (signerPublicKey s) (signerPublicKey s))"

definition validateSignature ::
  "(string \<Rightarrow> string \<Rightarrow> string option) \<Rightarrow> SignatureResponse option \<Rightarrow> string \<Rightarrow> bool" where
  "validateSignature recover sig expectedHash =
     (case sig of
        None \<Rightarrow> False
      | Some s \<Rightarrow>
          (case recover (signedPayload s expectedHash) (sig_signature s) of
             None \<Rightarrow> False
           | Some recovered \<Rightarrow>
               (case expectedAddr s of
                  None \<Rightarrow> False
                | Some a \<Rightarrow> a \<noteq> [] \<and> toLowerCase recovered = toLowerCase a)))"

section \<open>Hash reconciliation (\<^verbatim>\<open>verifyMessage\<close>, the block after the two fetches)\<close>

record hashes =
  requestHashWithNewlines :: string
  requestHashNoNewlines :: string
  responseHashWithNewlines :: string
  responseHashNoNewlines :: string

definition reconcile :: "hashes \<Rightarrow> SignatureResponse option \<Rightarrow> string \<times> string" where
  "reconcile h sig =
     (let dflt = (requestHashWithNewlines h, responseHashWithNewlines h) in
      case sig of
        None \<Rightarrow> dflt
      | Some s \<Rightarrow>
          (case sig_text s of
             None \<Rightarrow> dflt
           | Some t \<Rightarrow>
               if t = [] then dflt
               else
                 (case split_colon t of
                    [sigReq, sigRes] \<Rightarrow>
                      (let matchesWith =
                             (sigReq = requestHashWithNewlines h \<and>
                              sigRes = responseHashWithNewlines h);
                           matchesWithout =
                             (sigReq = requestHashNoNewlines h \<and>
                              sigRes = responseHashNoNewlines h)
                       in if matchesWith
                          then (requestHashWithNewlines h, responseHashWithNewlines h)
                          else if matchesWithout
                          then (requestHashNoNewlines h, responseHashNoNewlines h)
                          else (sigReq, sigRes))
                  | _ \<Rightarrow> dflt)))"

section \<open>Evidence fetching with retry (\<^verbatim>\<open>fetchSignature\<close>, \<^verbatim>\<open>fetchAttestation\<close>)\<close>

record BackoffConfig =
  attempts :: nat
  delays :: "nat list"

definition backoff :: BackoffConfig where
  "backoff = \<lparr>attempts = 5, delays = [5000, 10000, 15000, 20000, 30000]\<rparr>"

text \<open>
  What one pass through the \<^verbatim>\<open>try\<close> block meets: a response with \<^verbatim>\<open>res.ok\<close> whose
  body parses to \<open>data\<close>; a response that is not \<^verbatim>\<open>ok\<close>, with its status; or a
  rejection of \<^verbatim>\<open>fetch\<close> or of \<^verbatim>\<open>res.json()\<close> with a thrown value.
\<close>

datatype 'a attempt = Responds_ok 'a | Responds_status nat | Throws thrown

datatype endpoint = SignatureEndpoint | AttestationEndpoint

text \<open>
  The observable effects of a fetch, in program order: the \<open>i\<close>-th request to an
  endpoint, and a \<^verbatim>\<open>setTimeout\<close> wait of so many milliseconds that is awaited.
\<close>

datatype event = Request endpoint nat | Sleep nat

definition not_ok_message :: "endpoint \<Rightarrow> string" where
  "not_ok_message ep =
     (case ep of SignatureEndpoint \<Rightarrow> ''Signature fetch failed: ''
               | AttestationEndpoint \<Rightarrow> ''Attestation fetch failed: '')"

definition retries_message :: "endpoint \<Rightarrow> string" where
  "retries_message ep =
     (case ep of SignatureEndpoint \<Rightarrow> ''Failed to fetch signature after retries: ''
               | AttestationEndpoint \<Rightarrow> ''Failed to fetch attestation after retries: '')"

text \<open>The body of the \<^verbatim>\<open>try\<close> block: the data, or the value the \<^verbatim>\<open>catch\<close> receives.\<close>

definition try_fetch :: "endpoint \<Rightarrow> 'a attempt \<Rightarrow> thrown + 'a" where
  "try_fetch ep a =
     (case a of
        Responds_ok data \<Rightarrow> Inr data
      | Responds_status st \<Rightarrow> Inl (new_Error (not_ok_message ep @ string_of_nat st))
      | Throws e \<Rightarrow> Inl e)"

text \<open>
  \<^verbatim>\<open>backoff.delays[i]\<close>; an index past the array gives \<^verbatim>\<open>undefined\<close>, which
  \<^verbatim>\<open>setTimeout\<close> takes as 0.
\<close>

definition delay_at :: "nat \<Rightarrow> nat" where
  "delay_at i = (if i < length (delays backoff) then delays backoff ! i else 0)"

text \<open>
  The two source functions are the same \<^verbatim>\<open>for\<close> loop, word for word, apart from the
  URL and the two messages; \<open>fetch_loop\<close> is that loop from index \<open>i\<close> on, with the
  endpoint selecting the messages and \<open>reply i\<close> the outcome of the \<open>i\<close>-th request.
\<close>

function fetch_loop ::
  "endpoint \<Rightarrow> (nat \<Rightarrow> 'a attempt) \<Rightarrow> nat \<Rightarrow> thrown option \<Rightarrow> event list
     \<Rightarrow> (thrown + 'a) \<times> event list" where
  "fetch_loop ep reply i lastError tr =
     (if i < attempts backoff then
        (case try_fetch ep (reply i) of
           Inr data \<Rightarrow> (Inr data, tr @ [Request ep i])
         | Inl e \<Rightarrow>
             if i < attempts backoff - 1
             then fetch_loop ep reply (i + 1) (Some e) (tr @ [Request ep i, Sleep (delay_at i)])
             else fetch_loop ep reply (i + 1) (Some e) (tr @ [Request ep i]))
      else (Inl (new_Error (retries_message ep @ String_opt lastError)), tr))"
  by pat_completeness auto
termination
  by (relation "measure (\<lambda>(ep, reply, i, lastError, tr). attempts backoff - i)") auto

declare fetch_loop.simps [simp del]

text \<open>
  The remote authority: what it answers to the \<open>i\<close>-th request of a fetch, given the
  arguments that make up the URL and the bearer header.
\<close>

record network =
  signature_reply :: "string \<Rightarrow> string \<Rightarrow> string \<Rightarrow> nat \<Rightarrow> SignatureResponse attempt"
  attestation_reply :: "string \<Rightarrow> string \<Rightarrow> nat \<Rightarrow> AttestationResponse attempt"

definition fetchSignature ::
  "network \<Rightarrow> string \<Rightarrow> string \<Rightarrow> string \<Rightarrow> event list
     \<Rightarrow> (thrown + SignatureResponse) \<times> event list" where
  "fetchSignature net chatId model apiKey tr =
     fetch_loop SignatureEndpoint (signature_reply net chatId model apiKey) 0 None tr"

definition fetchAttestation ::
  "network \<Rightarrow> string \<Rightarrow> string \<Rightarrow> event list
     \<Rightarrow> (thrown + AttestationResponse) \<times> event list" where
  "fetchAttestation net model apiKey tr =
     fetch_loop AttestationEndpoint (attestation_reply net model apiKey) 0 None tr"

text \<open>Observers of a trace.\<close>

fun requests :: "endpoint \<Rightarrow> event list \<Rightarrow> nat list" where
  "requests ep [] = []"
| "requests ep (Request ep' i # tr) = (if ep' = ep then i # requests ep tr else requests ep tr)"
| "requests ep (Sleep ms # tr) = requests ep tr"

fun sleeps :: "event list \<Rightarrow> nat list" where
  "sleeps [] = []"
| "sleeps (Request ep i # tr) = sleeps tr"
| "sleeps (Sleep ms # tr) = ms # sleeps tr"

definition waited :: "event list \<Rightarrow> nat" where
  "waited tr = sum_list (sleeps tr)"

section \<open>The orchestrator (\<^verbatim>\<open>VerificationService.verifyMessage\<close>)\<close>

text \<open>
  What the platform supplies: the SHA-256 digest, \<^verbatim>\<open>JSON.stringify\<close> on the request
  body, \<^verbatim>\<open>ethers.verifyMessage\<close> (\<open>None\<close> when it throws) and the value of
  \<^verbatim>\<open>new Date().toISOString()\<close>.
\<close>

record 'b platform =
  digest_SHA256 :: "byte list \<Rightarrow> byte list"
  JSON_stringify :: "'b \<Rightarrow> string"
  ethers_verifyMessage :: "string \<Rightarrow> string \<Rightarrow> string option"
  toISOString_now :: string

definition local_hashes :: "'b platform \<Rightarrow> 'b \<Rightarrow> string \<Rightarrow> hashes" where
  "local_hashes pf requestBody responseText =
     \<lparr>requestHashWithNewlines =
        computeHash (digest_SHA256 pf) (JSON_stringify pf requestBody @ [CHR 0x0A, CHR 0x0A]),
      requestHashNoNewlines = computeHash (digest_SHA256 pf) (JSON_stringify pf requestBody),
      responseHashWithNewlines =
        computeHash (digest_SHA256 pf) (responseText @ [CHR 0x0A, CHR 0x0A]),
      responseHashNoNewlines = computeHash (digest_SHA256 pf) responseText\<rparr>"

text \<open>
  The two \<^verbatim>\<open>try\<close>/\<^verbatim>\<open>catch\<close> blocks, in the order of the source: the signature fetch
  is awaited first, then the attestation fetch; each \<^verbatim>\<open>catch\<close> writes the error
  string. The function returns the record together with the trace of both fetches.
\<close>

definition verifyMessage ::
  "'b platform \<Rightarrow> network \<Rightarrow> string \<Rightarrow> 'b \<Rightarrow> string \<Rightarrow> string \<Rightarrow> string
     \<Rightarrow> VerificationData \<times> event list" where
  "verifyMessage pf net chatId requestBody responseText model apiKey =
     (let h = local_hashes pf requestBody responseText;
          (sigResult, tr1) = fetchSignature net chatId model apiKey [];
          (signature, error1) =
             (case sigResult of
                Inr data \<Rightarrow> (Some data, None)
              | Inl e \<Rightarrow> (None, Some (''signature-fetch-failed: '' @ String_thrown e)));
          (attResult, tr2) = fetchAttestation net model apiKey tr1;
          (attestation, error) =
             (case attResult of
                Inr data \<Rightarrow> (Some data, error1)
              | Inl e \<Rightarrow>
                  (None,
                   Some (if truthy error1
                         then js_or_str error1 [] @ ''; attestation-fetch-failed: '' @ String_thrown e
                         else ''attestation-fetch-failed: '' @ String_thrown e)));
          (requestHash, responseHash) = reconcile h signature;
          concatenated = requestHash @ '':'' @ responseHash;
          verified =
             (validateSignature (ethers_verifyMessage pf) signature concatenated
              \<and> attestation \<noteq> None)
      in (\<lparr>vd_chatId = chatId,
           vd_model = model,
           vd_requestHash = requestHash,
           vd_responseHash = responseHash,
           vd_signature = signature,
           vd_attestation = attestation,
           vd_verified = verified,
           vd_fetchedAt = Some (toISOString_now pf),
           vd_error = error\<rparr>, tr2))"

section \<open>The caller's deadline (\<^verbatim>\<open>onChatMessage\<close>, \<^verbatim>\<open>server.ts\<close>)\<close>

datatype status = Pending | Verified | Failed

record MessageMetadata =
  createdAt :: "string option"
  verification :: "VerificationData option"
  verificationStatus :: "status option"

record message =
  msg_id :: string
  msg_role :: string
  msg_text :: string
  metadata :: "MessageMetadata option"

definition NEAR_MODEL :: string where
  "NEAR_MODEL = ''openai/gpt-oss-120b''"

definition verificationTimeoutMs :: nat where
  "verificationTimeoutMs = 30000"

text \<open>
  A promise settles at some time (milliseconds after the race starts) with a value, or
  never settles.
\<close>

datatype 'a promise = Settles nat 'a | Never

text \<open>
  \<^verbatim>\<open>Promise.race([p, timer])\<close>, where the timer rejects with
  \<^verbatim>\<open>new Error("verification-timeout")\<close> after \<open>verificationTimeoutMs\<close>: the one that
  settles first decides. Which one the event loop serves first when both fall on the
  same millisecond is the flag \<open>orchestration_first_on_tie\<close>.
\<close>

definition race_timeout :: "bool \<Rightarrow> (thrown + 'a) promise \<Rightarrow> thrown + 'a" where
  "race_timeout orchestration_first_on_tie p =
     (case p of
        Never \<Rightarrow> Inl (new_Error ''verification-timeout'')
      | Settles t r \<Rightarrow>
          if t < verificationTimeoutMs \<or> (t = verificationTimeoutMs \<and> orchestration_first_on_tie)
          then r else Inl (new_Error ''verification-timeout''))"

text \<open>\<^verbatim>\<open>{...(m.metadata || {}), verification: v, verificationStatus: st}\<close>\<close>

definition set_verification ::
  "VerificationData \<Rightarrow> status \<Rightarrow> MessageMetadata option \<Rightarrow> MessageMetadata" where
  "set_verification v st md =
     \<lparr>createdAt = (case md of None \<Rightarrow> None | Some d \<Rightarrow> createdAt d),
      verification = Some v,
      verificationStatus = Some st\<rparr>"

text \<open>
  The \<^verbatim>\<open>catch\<close> branch's record: the fields of the message's earlier
  \<^verbatim>\<open>verification\<close> object, if any, overwritten by the seven fields the branch sets.
\<close>

definition failed_record ::
  "'b platform \<Rightarrow> thrown \<Rightarrow> string \<Rightarrow> 'b \<Rightarrow> string \<Rightarrow> MessageMetadata option
     \<Rightarrow> VerificationData" where
  "failed_record pf e chatId requestBody streamedText md =
     (let requestHash =
            computeHash (digest_SHA256 pf) (JSON_stringify pf requestBody @ [CHR 0x0A, CHR 0x0A]);
          responseHash = computeHash (digest_SHA256 pf) (streamedText @ [CHR 0x0A, CHR 0x0A]);
          old = (case md of None \<Rightarrow> None | Some d \<Rightarrow> verification d)
      in \<lparr>vd_chatId = chatId,
          vd_model = NEAR_MODEL,
          vd_requestHash = requestHash,
          vd_responseHash = responseHash,
          vd_signature = (case old of None \<Rightarrow> None | Some v \<Rightarrow> vd_signature v),
          vd_attestation = (case old of None \<Rightarrow> None | Some v \<Rightarrow> vd_attestation v),
          vd_verified = False,
          vd_fetchedAt = Some (toISOString_now pf),
          vd_error = Some (String_thrown e)\<rparr>)"

text \<open>
  The asynchronous task started after the pending message is stored. \<open>settles\<close> is the
  time at which \<^verbatim>\<open>verifyMessage\<close> settles, \<open>None\<close> when it never does. The task is
  started only when \<^verbatim>\<open>chatId && apiKey\<close>; otherwise the messages stay as they are.
\<close>

definition verification_task ::
  "'b platform \<Rightarrow> network \<Rightarrow> bool \<Rightarrow> nat option \<Rightarrow> message list \<Rightarrow> string
     \<Rightarrow> string option \<Rightarrow> 'b \<Rightarrow> string \<Rightarrow> string \<Rightarrow> message list" where
  "verification_task pf net tie settles messages messageId chatId requestBody streamedText apiKey =
     (if truthy chatId \<and> apiKey \<noteq> [] then
        (let cid = js_or_str chatId [];
             p = (case settles of
                    None \<Rightarrow> Never
                  | Some t \<Rightarrow>
                      Settles t
                        (Inr (fst (verifyMessage pf net cid requestBody streamedText
                                     NEAR_MODEL apiKey))))
         in case race_timeout tie p of
              Inr data \<Rightarrow>
                map (\<lambda>m. if msg_id m = messageId
                          then m\<lparr>metadata :=
                                 Some (set_verification data
                                        (if vd_verified data then Verified else Failed)
                                        (metadata m))\<rparr>
                          else m) messages
            | Inl e \<Rightarrow>
                map (\<lambda>m. if msg_id m = messageId
                          then m\<lparr>metadata :=
                                 Some (set_verification
                                        (failed_record pf e cid requestBody streamedText
                                           (metadata m))
                                        Failed (metadata m))\<rparr>
                          else m) messages)
      else messages)"

section \<open>Suspension points of the hash computation\<close>

text \<open>
  \<^verbatim>\<open>computeHash\<close> is an \<^verbatim>\<open>async\<close> function: it suspends at
  \<^verbatim>\<open>await crypto.subtle.digest("SHA-256", enc)\<close> and goes on with the digest once the
  platform delivers it. A computation of this kind is either finished with a value, or
  awaits the digest of some bytes and continues from it. \<open>run_async\<close> gives the value
  it ends with when the platform's digest is \<open>sha256\<close>, \<open>awaits\<close> the number of times it
  suspends on the way, and a computation is synchronous when it is finished without
  suspending.
\<close>

datatype 'a async = Done 'a | Await_digest "byte list" "byte list \<Rightarrow> 'a async"

primrec bind_async :: "'a async \<Rightarrow> ('a \<Rightarrow> 'b async) \<Rightarrow> 'b async" where
  "bind_async (Done x) f = f x"
| "bind_async (Await_digest bytes k) f = Await_digest bytes (\<lambda>digest. bind_async (k digest) f)"

primrec run_async :: "(byte list \<Rightarrow> byte list) \<Rightarrow> 'a async \<Rightarrow> 'a" where
  "run_async sha256 (Done x) = x"
| "run_async sha256 (Await_digest bytes k) = run_async sha256 (k (sha256 bytes))"

primrec awaits :: "(byte list \<Rightarrow> byte list) \<Rightarrow> 'a async \<Rightarrow> nat" where
  "awaits sha256 (Done x) = 0"
| "awaits sha256 (Await_digest bytes k) = Suc (awaits sha256 (k (sha256 bytes)))"

definition synchronous :: "'a async \<Rightarrow> bool" where
  "synchronous p = (case p of Done x \<Rightarrow> True | Await_digest bytes k \<Rightarrow> False)"

text \<open>\<^verbatim>\<open>computeHash\<close> with its suspension point.\<close>

definition computeHash_async :: "string \<Rightarrow> string async" where
  "computeHash_async data =
     Await_digest (encode data)
       (\<lambda>digest. Done (concat (map (\<lambda>b. padStart2 (toString16 b)) digest)))"

text \<open>
  The two hash computations of the \<^verbatim>\<open>catch\<close> branch of the deadline race
  (\<^verbatim>\<open>requestHash = await computeHash(JSON.stringify(requestBody) + "\n\n")\<close>, then
  \<^verbatim>\<open>responseHash = await computeHash(streamedText + "\n\n")\<close>), in sequence.
\<close>

definition timeout_hashes_async :: "'b platform \<Rightarrow> 'b \<Rightarrow> string \<Rightarrow> (string \<times> string) async" where
  "timeout_hashes_async pf requestBody streamedText =
     bind_async (computeHash_async (JSON_stringify pf requestBody @ [CHR 0x0A, CHR 0x0A]))
       (\<lambda>requestHash.
          bind_async (computeHash_async (streamedText @ [CHR 0x0A, CHR 0x0A]))
            (\<lambda>responseHash. Done (requestHash, responseHash)))"

section \<open>The specification's wording, for comparison with the code\<close>

text \<open>
  ``Exactly two colon-delimited fields'': the text up to the first colon and the text
  after it, provided no further colon follows.
\<close>

definition two_fields :: "string \<Rightarrow> (string \<times> string) option" where
  "two_fields t =
     (case dropWhile (\<lambda>c. c \<noteq> CHR '':'') t of
        [] \<Rightarrow> None
      | _ # rest \<Rightarrow>
          if CHR '':'' \<in> set rest then None
          else Some (takeWhile (\<lambda>c. c \<noteq> CHR '':'') t, rest))"

text \<open>The reconciler's precedence as the specification lists it (steps 1 to 5).\<close>

definition reconcile_spec :: "hashes \<Rightarrow> SignatureResponse option \<Rightarrow> string \<times> string" where
  "reconcile_spec h sig =
     (let newline_variant = (requestHashWithNewlines h, responseHashWithNewlines h);
          plain_variant = (requestHashNoNewlines h, responseHashNoNewlines h)
      in case sig of
           None \<Rightarrow> newline_variant
         | Some s \<Rightarrow>
             (case sig_text s of
                None \<Rightarrow> newline_variant
              | Some t \<Rightarrow>
                  (case two_fields t of
                     None \<Rightarrow> newline_variant
                   | Some reported \<Rightarrow>
                       if reported = newline_variant then newline_variant
                       else if reported = plain_variant then plain_variant
                       else reported)))"

text \<open>
  The validator's two selections as the specification words them, with ``present''
  read as ``the field is defined''.
\<close>

definition stated_signed_text :: "SignatureResponse \<Rightarrow> string \<Rightarrow> string" where
  "stated_signed_text s canonicalPayload =
     (case sig_text s of
        Some t \<Rightarrow> t
      | None \<Rightarrow> (case signedHash s of Some h \<Rightarrow> h | None \<Rightarrow> canonicalPayload))"

definition stated_address :: "SignatureResponse \<Rightarrow> string option" where
  "stated_address s =
     (case signing_address s of Some a \<Rightarrow> Some a | None \<Rightarrow> signerPublicKey s)"

text \<open>
  The trace of a fetch whose attempts \<open>0, \<dots>, n\<close> were made: each attempt but the last
  is followed by the wait the schedule gives it.
\<close>

definition schedule_trace :: "endpoint \<Rightarrow> nat \<Rightarrow> event list" where
  "schedule_trace ep n =
     concat (map (\<lambda>i. [Request ep i, Sleep (delay_at i)]) [0..<n]) @ [Request ep n]"

text \<open>
  A fetch is issued before any wait when no \<open>Sleep\<close> precedes its first request in
  the trace. Two fetches that are issued concurrently are both issued before any wait.
\<close>

definition issued_before_any_wait :: "endpoint \<Rightarrow> event list \<Rightarrow> bool" where
  "issued_before_any_wait ep tr = (sleeps (takeWhile (\<lambda>ev. ev \<noteq> Request ep 0) tr) = [])"

definition issued_concurrently :: "event list \<Rightarrow> bool" where
  "issued_concurrently tr =
     (issued_before_any_wait SignatureEndpoint tr \<and> issued_before_any_wait AttestationEndpoint tr)"

text \<open>What a stored message says about its verification.\<close>

definition message_verification :: "message \<Rightarrow> VerificationData option" where
  "message_verification m = (case metadata m of None \<Rightarrow> None | Some d \<Rightarrow> verification d)"

definition message_status :: "message \<Rightarrow> status option" where
  "message_status m = (case metadata m of None \<Rightarrow> None | Some d \<Rightarrow> verificationStatus d)"

section \<open>Concrete inputs\<close>

text \<open>
  A toy platform: the digest of a byte string is the single byte holding its length,
  the request body serialises to \<open>{}\<close>, and the signature \<open>0xs1\<close> recovers to the
  address \<open>0xABCD\<close> over the message \<open>04:04\<close>, to another address over any other
  message; every other signature makes the recovery throw.
\<close>

definition example_recover :: "string \<Rightarrow> string \<Rightarrow> string option" where
  "example_recover msg sg =
     (if sg = ''0xs1'' then (if msg = ''04:04'' then Some ''0xABCD'' else Some ''0xFFFF'')
      else None)"

definition example_platform :: "unit platform" where
  "example_platform =
     \<lparr>digest_SHA256 = (\<lambda>bs. [of_nat (length bs)]),
      JSON_stringify = (\<lambda>_. ''{}''),
      ethers_verifyMessage = example_recover,
      toISOString_now = ''2025-01-01T00:00:00.000Z''\<rparr>"

definition example_signature :: SignatureResponse where
  "example_signature =
     \<lparr>sig_chatId = Some ''c1'', sig_model = ''m'', sig_signature = ''0xs1'',
      signedHash = None, sig_text = None, signerPublicKey = None,
      signing_address = Some ''0xabcd'', algorithm = None, signing_algo = Some ''ecdsa'',
      timestamp = None, sig_nrasResult = None\<rparr>"

definition example_attestation :: AttestationResponse where
  "example_attestation =
     \<lparr>att_model = ''m'', attestationDocument = None, jwt = None, enclaveIdentity = None,
      att_signing_address = None, intel_quote = None, att_nrasResult = None\<rparr>"

definition net_ok :: network where
  "net_ok =
     \<lparr>signature_reply = (\<lambda>c m k i. Responds_ok example_signature),
      attestation_reply = (\<lambda>m k i. Responds_ok example_attestation)\<rparr>"

definition net_attestation_down :: network where
  "net_attestation_down =
     \<lparr>signature_reply = (\<lambda>c m k i. Responds_ok example_signature),
      attestation_reply = (\<lambda>m k i. Responds_status 503)\<rparr>"

definition net_signature_down :: network where
  "net_signature_down =
     \<lparr>signature_reply = (\<lambda>c m k i. Throws (JsError ''TypeError'' ''fetch failed'')),
      attestation_reply = (\<lambda>m k i. Responds_ok example_attestation)\<rparr>"

definition net_down :: network where
  "net_down =
     \<lparr>signature_reply = (\<lambda>c m k i. Responds_status 500),
      attestation_reply = (\<lambda>m k i. Throws (JsError ''TypeError'' ''fetch failed''))\<rparr>"

definition net_signature_retry :: network where
  "net_signature_retry =
     \<lparr>signature_reply =
        (\<lambda>c m k i. if i = 0 then Responds_status 503 else Responds_ok example_signature),
      attestation_reply = (\<lambda>m k i. Responds_ok example_attestation)\<rparr>"

definition pending_message :: message where
  "pending_message =
     \<lparr>msg_id = ''m1'', msg_role = ''assistant'', msg_text = ''hi'',
      metadata =
        Some \<lparr>createdAt = Some ''2025-01-01T00:00:00.000Z'',
              verification =
                Some \<lparr>vd_chatId = ''c1'', vd_model = NEAR_MODEL, vd_requestHash = [],
                      vd_responseHash = [], vd_signature = None, vd_attestation = None,
                      vd_verified = False, vd_fetchedAt = None, vd_error = None\<rparr>,
              verificationStatus = Some Pending\<rparr>\<rparr>"

section \<open>The retry loop, unrolled\<close>

text \<open>
  With five attempts the loop has six ways to end: a success at one of the attempts
  \<open>0, \<dots>, 4\<close>, or five failures.
\<close>

lemma fetch_loop_unroll:
  "fetch_loop ep reply 0 le tr =
     (case try_fetch ep (reply 0) of
        Inr d \<Rightarrow> (Inr d, tr @ [Request ep 0])
      | Inl e0 \<Rightarrow>
     (case try_fetch ep (reply 1) of
        Inr d \<Rightarrow> (Inr d, tr @ [Request ep 0, Sleep 5000, Request ep 1])
      | Inl e1 \<Rightarrow>
     (case try_fetch ep (reply 2) of
        Inr d \<Rightarrow> (Inr d, tr @ [Request ep 0, Sleep 5000, Request ep 1, Sleep 10000, Request ep 2])
      | Inl e2 \<Rightarrow>
     (case try_fetch ep (reply 3) of
        Inr d \<Rightarrow> (Inr d, tr @ [Request ep 0, Sleep 5000, Request ep 1, Sleep 10000, Request ep 2,
                          Sleep 15000, Request ep 3])
      | Inl e3 \<Rightarrow>
     (case try_fetch ep (reply 4) of
        Inr d \<Rightarrow> (Inr d, tr @ [Request ep 0, Sleep 5000, Request ep 1, Sleep 10000, Request ep 2,
                          Sleep 15000, Request ep 3, Sleep 20000, Request ep 4])
      | Inl e4 \<Rightarrow>
          (Inl (new_Error (retries_message ep @ String_thrown e4)),
           tr @ [Request ep 0, Sleep 5000, Request ep 1, Sleep 10000, Request ep 2,
            Sleep 15000, Request ep 3, Sleep 20000, Request ep 4]))))))"
  by (simp add: fetch_loop.simps backoff_def delay_at_def String_opt_def
        numeral_2_eq_2[symmetric] split: sum.splits)

lemma fetch_loop_fst:
  "fst (fetch_loop ep reply 0 le tr) = fst (fetch_loop ep reply 0 None [])"
  by (simp add: fetch_loop_unroll split: sum.splits)

lemma fetch_loop_snd:
  "snd (fetch_loop ep reply 0 le tr) = tr @ snd (fetch_loop ep reply 0 None [])"
  by (simp add: fetch_loop_unroll split: sum.splits)

lemma fetchAttestation_after:
  "fst (fetchAttestation net m k (snd (fetchSignature net c m' k' []))) =
     fst (fetchAttestation net m k [])"
  "snd (fetchAttestation net m k (snd (fetchSignature net c m' k' []))) =
     snd (fetchSignature net c m' k' []) @ snd (fetchAttestation net m k [])"
  unfolding fetchAttestation_def
  by (rule fetch_loop_fst, rule fetch_loop_snd)

section \<open>The fields of the record \<^verbatim>\<open>verifyMessage\<close> returns\<close>

lemma verifyMessage_signature:
  "vd_signature (fst (verifyMessage pf net c b r m k)) =
     (case fst (fetchSignature net c m k []) of Inl e \<Rightarrow> None | Inr s \<Rightarrow> Some s)"
  by (simp add: verifyMessage_def Let_def split_beta split: sum.splits)

lemma verifyMessage_attestation:
  "vd_attestation (fst (verifyMessage pf net c b r m k)) =
     (case fst (fetchAttestation net m k []) of Inl e \<Rightarrow> None | Inr a \<Rightarrow> Some a)"
  by (simp add: verifyMessage_def Let_def split_beta fetchAttestation_after split: sum.splits)

lemma verifyMessage_hashes:
  "(vd_requestHash (fst (verifyMessage pf net c b r m k)),
    vd_responseHash (fst (verifyMessage pf net c b r m k))) =
     reconcile (local_hashes pf b r) (vd_signature (fst (verifyMessage pf net c b r m k)))"
  by (simp add: verifyMessage_def Let_def split_beta split: sum.splits)

lemma verifyMessage_verified:
  "vd_verified (fst (verifyMessage pf net c b r m k)) =
     (validateSignature (ethers_verifyMessage pf)
        (vd_signature (fst (verifyMessage pf net c b r m k)))
        (vd_requestHash (fst (verifyMessage pf net c b r m k)) @ '':'' @
         vd_responseHash (fst (verifyMessage pf net c b r m k)))
      \<and> vd_attestation (fst (verifyMessage pf net c b r m k)) \<noteq> None)"
  by (simp add: verifyMessage_def Let_def split_beta split: sum.splits)

lemma verifyMessage_error:
  "vd_error (fst (verifyMessage pf net c b r m k)) =
     (case fst (fetchSignature net c m k []) of
        Inr s \<Rightarrow>
          (case fst (fetchAttestation net m k []) of
             Inr a \<Rightarrow> None
           | Inl e2 \<Rightarrow> Some (''attestation-fetch-failed: '' @ String_thrown e2))
      | Inl e1 \<Rightarrow>
          (case fst (fetchAttestation net m k []) of
             Inr a \<Rightarrow> Some (''signature-fetch-failed: '' @ String_thrown e1)
           | Inl e2 \<Rightarrow>
               Some (''signature-fetch-failed: '' @ String_thrown e1 @
                     ''; attestation-fetch-failed: '' @ String_thrown e2)))"
  by (simp add: verifyMessage_def Let_def split_beta fetchAttestation_after truthy_def
        js_or_str_def split: sum.splits)

lemma verifyMessage_trace:
  "snd (verifyMessage pf net c b r m k) =
     snd (fetchSignature net c m k []) @ snd (fetchAttestation net m k [])"
  by (simp add: verifyMessage_def Let_def split_beta fetchAttestation_after split: sum.splits)

section \<open>Runs on the concrete inputs\<close>

lemma example_platform_fields:
  "ethers_verifyMessage example_platform = example_recover"
  "toISOString_now example_platform = ''2025-01-01T00:00:00.000Z''"
  by (simp_all add: example_platform_def)

lemma example_hashes:
  "local_hashes example_platform () ''hi'' =
     \<lparr>requestHashWithNewlines = ''04'', requestHashNoNewlines = ''02'',
      responseHashWithNewlines = ''04'', responseHashNoNewlines = ''02''\<rparr>"
  by (simp add: local_hashes_def example_platform_def computeHash_def encode_def
        padStart2_def toString16_def hex_digit_def)

lemma example_signature_valid:
  "validateSignature example_recover (Some example_signature) ''04:04''"
  by (simp add: validateSignature_def example_signature_def signedPayload_def js_or_str_def
        js_or_def truthy_def expectedAddr_def toLowerCase_def lower_char_def
        example_recover_def)

lemma example_fetches:
  "fetchSignature net_ok c m k [] = (Inr example_signature, [Request SignatureEndpoint 0])"
  "fetchAttestation net_ok m k [] = (Inr example_attestation, [Request AttestationEndpoint 0])"
  "fetchSignature net_attestation_down c m k [] =
     (Inr example_signature, [Request SignatureEndpoint 0])"
  "fetchAttestation net_signature_down m k [] =
     (Inr example_attestation, [Request AttestationEndpoint 0])"
  "fetchAttestation net_signature_retry m k [] =
     (Inr example_attestation, [Request AttestationEndpoint 0])"
  "fetchSignature net_signature_retry c m k [] =
     (Inr example_signature,
      [Request SignatureEndpoint 0, Sleep 5000, Request SignatureEndpoint 1])"
  by (simp_all add: fetchSignature_def fetchAttestation_def fetch_loop_unroll try_fetch_def
        net_ok_def net_attestation_down_def net_signature_down_def net_signature_retry_def)

lemma example_failures:
  "fetchAttestation net_attestation_down m k [] =
     (Inl (new_Error
        ''Failed to fetch attestation after retries: Error: Attestation fetch failed: 503''),
      [Request AttestationEndpoint 0, Sleep 5000, Request AttestationEndpoint 1, Sleep 10000,
       Request AttestationEndpoint 2, Sleep 15000, Request AttestationEndpoint 3, Sleep 20000,
       Request AttestationEndpoint 4])"
  "fetchSignature net_signature_down c m k [] =
     (Inl (new_Error ''Failed to fetch signature after retries: TypeError: fetch failed''),
      [Request SignatureEndpoint 0, Sleep 5000, Request SignatureEndpoint 1, Sleep 10000,
       Request SignatureEndpoint 2, Sleep 15000, Request SignatureEndpoint 3, Sleep 20000,
       Request SignatureEndpoint 4])"
  "fetchSignature net_down c m k [] =
     (Inl (new_Error
        ''Failed to fetch signature after retries: Error: Signature fetch failed: 500''),
      [Request SignatureEndpoint 0, Sleep 5000, Request SignatureEndpoint 1, Sleep 10000,
       Request SignatureEndpoint 2, Sleep 15000, Request SignatureEndpoint 3, Sleep 20000,
       Request SignatureEndpoint 4])"
  "fetchAttestation net_down m k [] =
     (Inl (new_Error ''Failed to fetch attestation after retries: TypeError: fetch failed''),
      [Request AttestationEndpoint 0, Sleep 5000, Request AttestationEndpoint 1, Sleep 10000,
       Request AttestationEndpoint 2, Sleep 15000, Request AttestationEndpoint 3, Sleep 20000,
       Request AttestationEndpoint 4])"
  by (simp_all add: fetchSignature_def fetchAttestation_def fetch_loop_unroll try_fetch_def
        net_attestation_down_def net_signature_down_def net_down_def new_Error_def
        not_ok_message_def retries_message_def string_of_nat.simps digit_char_def)

section \<open>Claims about the verdict\<close>

text \<open>
  C1. The record returned by \<^verbatim>\<open>verifyMessage\<close> has \<open>verified\<close> true only if
  signature validation succeeded on the canonical payload (the reconciled request and
  response hashes joined by a colon) and the attestation fetch returned a record; and
  when the attestation fetch fails, \<open>verified\<close> is false, whatever the signature.
\<close>

theorem verified_needs_signature_and_attestation:
  "(vd_verified (fst (verifyMessage pf net c b r m k)) \<longrightarrow>
      validateSignature (ethers_verifyMessage pf)
        (vd_signature (fst (verifyMessage pf net c b r m k)))
        (fst (reconcile (local_hashes pf b r)
                (vd_signature (fst (verifyMessage pf net c b r m k)))) @ '':'' @
         snd (reconcile (local_hashes pf b r)
                (vd_signature (fst (verifyMessage pf net c b r m k)))))
      \<and> (\<exists>a. fst (fetchAttestation net m k []) = Inr a
               \<and> vd_attestation (fst (verifyMessage pf net c b r m k)) = Some a))
   \<and> (fst (fetchAttestation net m k []) = Inl e \<longrightarrow>
        \<not> vd_verified (fst (verifyMessage pf net c b r m k)))"
proof -
  let ?d = "fst (verifyMessage pf net c b r m k)"
  have hs: "vd_requestHash ?d = fst (reconcile (local_hashes pf b r) (vd_signature ?d))"
           "vd_responseHash ?d = snd (reconcile (local_hashes pf b r) (vd_signature ?d))"
    using verifyMessage_hashes [of pf net c b r m k] by (metis fst_conv, metis snd_conv)
  have att: "vd_attestation ?d \<noteq> None \<longrightarrow>
               (\<exists>a. fst (fetchAttestation net m k []) = Inr a \<and> vd_attestation ?d = Some a)"
    by (simp add: verifyMessage_attestation split: sum.splits)
  have down: "fst (fetchAttestation net m k []) = Inl e \<longrightarrow> vd_attestation ?d = None"
    by (simp add: verifyMessage_attestation)
  show ?thesis
    using verifyMessage_verified [of pf net c b r m k] hs att down by auto
qed

theorem verified_needs_signature_and_attestation_witness:
  "vd_verified (fst (verifyMessage example_platform net_ok ''c1'' () ''hi'' ''m'' ''key''))
   \<and> (\<exists>a. fst (fetchAttestation net_ok ''m'' ''key'' []) = Inr a)
   \<and> fst (fetchAttestation net_attestation_down ''m'' ''key'' []) =
        Inl (new_Error
          ''Failed to fetch attestation after retries: Error: Attestation fetch failed: 503'')
   \<and> validateSignature example_recover
        (vd_signature (fst (verifyMessage example_platform net_attestation_down
                              ''c1'' () ''hi'' ''m'' ''key'')))
        ''04:04''
   \<and> \<not> vd_verified (fst (verifyMessage example_platform net_attestation_down
                            ''c1'' () ''hi'' ''m'' ''key''))"
proof -
  have v: "vd_verified (fst (verifyMessage example_platform net_ok ''c1'' () ''hi'' ''m'' ''key''))"
  proof -
    let ?d = "fst (verifyMessage example_platform net_ok ''c1'' () ''hi'' ''m'' ''key'')"
    have sg: "vd_signature ?d = Some example_signature"
      by (simp add: verifyMessage_signature example_fetches)
    have at: "vd_attestation ?d = Some example_attestation"
      by (simp add: verifyMessage_attestation example_fetches)
    have "(vd_requestHash ?d, vd_responseHash ?d) = (''04'', ''04'')"
      by (simp only: verifyMessage_hashes sg)
         (simp add: example_hashes reconcile_def example_signature_def)
    then show ?thesis
      using verifyMessage_verified
              [of example_platform net_ok "''c1''" "()" "''hi''" "''m''" "''key''"]
            sg at example_signature_valid
      by (simp add: example_platform_fields)
  qed
  have f: "fst (fetchAttestation net_attestation_down ''m'' ''key'' []) =
             Inl (new_Error
               ''Failed to fetch attestation after retries: Error: Attestation fetch failed: 503'')"
    by (simp add: example_failures)
  have s: "vd_signature (fst (verifyMessage example_platform net_attestation_down
                                ''c1'' () ''hi'' ''m'' ''key'')) = Some example_signature"
    by (simp add: verifyMessage_signature example_fetches)
  from verified_needs_signature_and_attestation
         [of example_platform net_ok "''c1''" "()" "''hi''" "''m''" "''key''"] v
  have a: "\<exists>a. fst (fetchAttestation net_ok ''m'' ''key'' []) = Inr a"
    by blast
  from verified_needs_signature_and_attestation
         [of example_platform net_attestation_down "''c1''" "()" "''hi''" "''m''" "''key''"] f
  have n: "\<not> vd_verified (fst (verifyMessage example_platform net_attestation_down
                                  ''c1'' () ''hi'' ''m'' ''key''))"
    by blast
  show ?thesis
    using v a f n s example_signature_valid by simp
qed

text \<open>
  C9. Whenever the returned record carries an error string, that is, whenever at least
  one of the two fetches exhausted its retries, \<open>verified\<close> is false.
\<close>

theorem error_implies_unverified:
  "vd_error (fst (verifyMessage pf net c b r m k)) = Some err \<Longrightarrow>
     \<not> vd_verified (fst (verifyMessage pf net c b r m k))"
proof -
  assume err: "vd_error (fst (verifyMessage pf net c b r m k)) = Some err"
  let ?d = "fst (verifyMessage pf net c b r m k)"
  from err have "(\<exists>e. fst (fetchSignature net c m k []) = Inl e)
               \<or> (\<exists>e. fst (fetchAttestation net m k []) = Inl e)"
    by (simp add: verifyMessage_error split: sum.splits)
  then have "vd_signature ?d = None \<or> vd_attestation ?d = None"
    by (auto simp: verifyMessage_signature verifyMessage_attestation)
  then show ?thesis
    using verifyMessage_verified [of pf net c b r m k]
    by (auto simp: validateSignature_def)
qed

theorem error_implies_unverified_witness:
  "vd_error (fst (verifyMessage example_platform net_signature_down ''c1'' () ''hi'' ''m'' ''key''))
     = Some (''signature-fetch-failed: Error: Failed to fetch signature after retries: '' @
             ''TypeError: fetch failed'')
   \<and> \<not> vd_verified
         (fst (verifyMessage example_platform net_signature_down ''c1'' () ''hi'' ''m'' ''key''))"
proof -
  have e: "vd_error
             (fst (verifyMessage example_platform net_signature_down ''c1'' () ''hi'' ''m'' ''key''))
           = Some (''signature-fetch-failed: Error: Failed to fetch signature after retries: '' @
                   ''TypeError: fetch failed'')"
    by (simp add: verifyMessage_error example_failures example_fetches new_Error_def)
  from error_implies_unverified [OF e] e show ?thesis by simp
qed

text \<open>
  C10. \<^verbatim>\<open>validateSignature\<close> returns false when the signature record is absent, and
  when the record declares neither a signing address nor a signer public key, also
  when the recovery of an identity from the signature succeeds.
\<close>

theorem validateSignature_needs_declared_identity:
  "\<not> validateSignature recover None expectedHash
   \<and> (signing_address s = None \<and> signerPublicKey s = None \<longrightarrow>
        \<not> validateSignature recover (Some s) expectedHash)"
  by (simp add: validateSignature_def expectedAddr_def js_or_def truthy_def
        split: option.splits)

theorem validateSignature_needs_declared_identity_witness:
  "signing_address (example_signature\<lparr>signing_address := None\<rparr>) = None
   \<and> signerPublicKey (example_signature\<lparr>signing_address := None\<rparr>) = None
   \<and> example_recover
        (signedPayload (example_signature\<lparr>signing_address := None\<rparr>) ''04:04'')
        (sig_signature (example_signature\<lparr>signing_address := None\<rparr>)) = Some ''0xABCD''
   \<and> \<not> validateSignature example_recover
         (Some (example_signature\<lparr>signing_address := None\<rparr>)) ''04:04''"
proof -
  have h: "signing_address (example_signature\<lparr>signing_address := None\<rparr>) = None
           \<and> signerPublicKey (example_signature\<lparr>signing_address := None\<rparr>) = None"
    by (simp add: example_signature_def)
  have r: "example_recover
             (signedPayload (example_signature\<lparr>signing_address := None\<rparr>) ''04:04'')
             (sig_signature (example_signature\<lparr>signing_address := None\<rparr>)) = Some ''0xABCD''"
    by (simp add: example_signature_def signedPayload_def js_or_str_def example_recover_def)
  from validateSignature_needs_declared_identity
         [of example_recover "''04:04''" "example_signature\<lparr>signing_address := None\<rparr>"] h r
  show ?thesis by blast
qed

section \<open>Splitting at colons\<close>

lemma split_colon_not_Nil: "split_colon t \<noteq> []"
  by (induction t) (auto split: list.splits)

lemma split_colon_no_colon: "CHR '':'' \<notin> set t \<Longrightarrow> split_colon t = [t]"
  by (induction t) auto

lemma split_colon_single: "split_colon t = [b] \<longleftrightarrow> CHR '':'' \<notin> set t \<and> b = t"
proof (induction t arbitrary: b)
  case Nil
  show ?case by auto
next
  case (Cons c cs)
  show ?case
  proof (cases "c = CHR '':''")
    case True
    then show ?thesis by (simp add: split_colon_not_Nil)
  next
    case False
    then show ?thesis
      using Cons.IH split_colon_not_Nil [of cs]
      by (cases "split_colon cs") auto
  qed
qed

lemma split_colon_first:
  "split_colon t =
     takeWhile (\<lambda>c. c \<noteq> CHR '':'') t #
     (case dropWhile (\<lambda>c. c \<noteq> CHR '':'') t of [] \<Rightarrow> [] | _ # rest \<Rightarrow> split_colon rest)"
proof (induction t)
  case Nil
  show ?case by simp
next
  case (Cons c cs)
  show ?case
  proof (cases "c = CHR '':''")
    case True
    then show ?thesis by simp
  next
    case False
    then show ?thesis
      using Cons.IH by (simp split: list.splits)
  qed
qed

lemma split_colon_two_fields:
  "split_colon t = [a, b] \<longleftrightarrow> two_fields t = Some (a, b)"
proof (cases "dropWhile (\<lambda>c. c \<noteq> CHR '':'') t")
  case Nil
  have "split_colon t = [takeWhile (\<lambda>c. c \<noteq> CHR '':'') t]"
    by (subst split_colon_first) (simp only: Nil list.case)
  moreover have "two_fields t = None"
    by (simp only: two_fields_def Nil list.case)
  ultimately show ?thesis by simp
next
  case (Cons x rest)
  have "split_colon t = takeWhile (\<lambda>c. c \<noteq> CHR '':'') t # split_colon rest"
    by (subst split_colon_first) (simp only: Cons list.case)
  moreover have "two_fields t =
      (if CHR '':'' \<in> set rest then None
       else Some (takeWhile (\<lambda>c. c \<noteq> CHR '':'') t, rest))"
    by (simp only: two_fields_def Cons list.case)
  ultimately show ?thesis
    by (auto simp: split_colon_single)
qed

lemma case_split_colon:
  "(case split_colon t of
      [] \<Rightarrow> d
    | [a] \<Rightarrow> d
    | [a, b] \<Rightarrow> f a b
    | a # b # c # cs \<Rightarrow> d) =
   (case two_fields t of None \<Rightarrow> d | Some (a, b) \<Rightarrow> f a b)"
proof (cases "two_fields t")
  case None
  then have "\<And>a b. split_colon t \<noteq> [a, b]"
    by (simp add: split_colon_two_fields)
  with None show ?thesis
    by (auto split: list.splits)
next
  case (Some p)
  obtain a b where "p = (a, b)" by (cases p)
  with Some have "split_colon t = [a, b]"
    by (simp add: split_colon_two_fields)
  with Some \<open>p = (a, b)\<close> show ?thesis by simp
qed

lemma two_fields_Nil: "two_fields [] = None"
  by (simp add: two_fields_def)

section \<open>Claims about reconciliation\<close>

text \<open>
  C2. The reconciler selects the canonical pair by the precedence the specification
  lists: with no signature record, with no self-reported payload, or with a payload that
  is not exactly two colon-delimited fields, the newline variant; else the newline variant
  if the reported pair equals it; else the plain variant if the reported pair equals it;
  else the reported pair itself. The pair so selected is the one the returned record
  stores.
\<close>

theorem reconcile_precedence:
  "reconcile h sig = reconcile_spec h sig
   \<and> (vd_requestHash (fst (verifyMessage pf net c b r m k)),
       vd_responseHash (fst (verifyMessage pf net c b r m k))) =
      reconcile_spec (local_hashes pf b r)
        (vd_signature (fst (verifyMessage pf net c b r m k)))"
proof -
  have eq: "reconcile h' sig' = reconcile_spec h' sig'" for h' sig'
  proof (cases sig')
    case None
    then show ?thesis by (simp add: reconcile_def reconcile_spec_def)
  next
    case (Some s)
    show ?thesis
    proof (cases "sig_text s")
      case None
      with Some show ?thesis by (simp add: reconcile_def reconcile_spec_def)
    next
      case (Some t)
      show ?thesis
      proof (cases "t = []")
        case True
        with Some \<open>sig' = Some s\<close> show ?thesis
          by (simp add: reconcile_def reconcile_spec_def two_fields_Nil)
      next
        case False
        with Some \<open>sig' = Some s\<close> show ?thesis
          by (simp add: reconcile_def reconcile_spec_def Let_def case_split_colon
                split: option.splits)
      qed
    qed
  qed
  show ?thesis
    by (simp only: verifyMessage_hashes eq)
qed

section \<open>Claims about fetch failures\<close>

text \<open>
  C6. A fetch failure is caught into the error string under its label and aborts
  neither the other fetch nor the attempt: the record is returned, the other fetch's
  result is stored in it, and both fetches appear in the trace in full. With both
  fetches failed the error string holds both labelled failures joined by \<open>; \<close>. An
  evidence type whose fetch failed is absent from the record and \<open>verified\<close> is false.
\<close>

theorem fetch_failures_are_collected:
  "(fst (fetchSignature net c m k []) = Inl e1 \<and> fst (fetchAttestation net m k []) = Inl e2 \<longrightarrow>
      vd_error (fst (verifyMessage pf net c b r m k)) =
        Some (''signature-fetch-failed: '' @ String_thrown e1 @
              ''; attestation-fetch-failed: '' @ String_thrown e2)
      \<and> vd_signature (fst (verifyMessage pf net c b r m k)) = None
      \<and> vd_attestation (fst (verifyMessage pf net c b r m k)) = None
      \<and> \<not> vd_verified (fst (verifyMessage pf net c b r m k)))
   \<and> (fst (fetchSignature net c m k []) = Inl e1 \<and> fst (fetchAttestation net m k []) = Inr a \<longrightarrow>
      vd_error (fst (verifyMessage pf net c b r m k)) =
        Some (''signature-fetch-failed: '' @ String_thrown e1)
      \<and> vd_signature (fst (verifyMessage pf net c b r m k)) = None
      \<and> vd_attestation (fst (verifyMessage pf net c b r m k)) = Some a
      \<and> \<not> vd_verified (fst (verifyMessage pf net c b r m k)))
   \<and> (fst (fetchSignature net c m k []) = Inr s \<and> fst (fetchAttestation net m k []) = Inl e2 \<longrightarrow>
      vd_error (fst (verifyMessage pf net c b r m k)) =
        Some (''attestation-fetch-failed: '' @ String_thrown e2)
      \<and> vd_signature (fst (verifyMessage pf net c b r m k)) = Some s
      \<and> vd_attestation (fst (verifyMessage pf net c b r m k)) = None
      \<and> \<not> vd_verified (fst (verifyMessage pf net c b r m k)))
   \<and> snd (verifyMessage pf net c b r m k) =
       snd (fetchSignature net c m k []) @ snd (fetchAttestation net m k [])"
proof -
  let ?d = "fst (verifyMessage pf net c b r m k)"
  have v: "vd_signature ?d = None \<or> vd_attestation ?d = None \<Longrightarrow> \<not> vd_verified ?d"
    using verifyMessage_verified [of pf net c b r m k]
    by (auto simp: validateSignature_def)
  have both: "fst (fetchSignature net c m k []) = Inl e1 \<and>
              fst (fetchAttestation net m k []) = Inl e2 \<longrightarrow>
      vd_error ?d = Some (''signature-fetch-failed: '' @ String_thrown e1 @
                          ''; attestation-fetch-failed: '' @ String_thrown e2)
      \<and> vd_signature ?d = None \<and> vd_attestation ?d = None \<and> \<not> vd_verified ?d"
    using v by (simp add: verifyMessage_error verifyMessage_signature verifyMessage_attestation)
  have sigf: "fst (fetchSignature net c m k []) = Inl e1 \<and>
              fst (fetchAttestation net m k []) = Inr a \<longrightarrow>
      vd_error ?d = Some (''signature-fetch-failed: '' @ String_thrown e1)
      \<and> vd_signature ?d = None \<and> vd_attestation ?d = Some a \<and> \<not> vd_verified ?d"
    using v by (simp add: verifyMessage_error verifyMessage_signature verifyMessage_attestation)
  have attf: "fst (fetchSignature net c m k []) = Inr s \<and>
              fst (fetchAttestation net m k []) = Inl e2 \<longrightarrow>
      vd_error ?d = Some (''attestation-fetch-failed: '' @ String_thrown e2)
      \<and> vd_signature ?d = Some s \<and> vd_attestation ?d = None \<and> \<not> vd_verified ?d"
    using v by (simp add: verifyMessage_error verifyMessage_signature verifyMessage_attestation)
  show ?thesis
    using both sigf attf verifyMessage_trace [of pf net c b r m k] by blast
qed

theorem fetch_failures_are_collected_witness:
  "fst (fetchSignature net_down ''c1'' ''m'' ''key'' []) =
     Inl (new_Error ''Failed to fetch signature after retries: Error: Signature fetch failed: 500'')
   \<and> fst (fetchAttestation net_down ''m'' ''key'' []) =
     Inl (new_Error ''Failed to fetch attestation after retries: TypeError: fetch failed'')
   \<and> vd_error (fst (verifyMessage example_platform net_down ''c1'' () ''hi'' ''m'' ''key'')) =
     Some (''signature-fetch-failed: Error: Failed to fetch signature after retries: '' @
           ''Error: Signature fetch failed: 500; '' @
           ''attestation-fetch-failed: Error: Failed to fetch attestation after retries: '' @
           ''TypeError: fetch failed'')
   \<and> \<not> vd_verified (fst (verifyMessage example_platform net_down ''c1'' () ''hi'' ''m'' ''key''))
   \<and> fst (fetchSignature net_signature_down ''c1'' ''m'' ''key'' []) =
     Inl (new_Error ''Failed to fetch signature after retries: TypeError: fetch failed'')
   \<and> fst (fetchAttestation net_signature_down ''m'' ''key'' []) = Inr example_attestation
   \<and> vd_attestation
       (fst (verifyMessage example_platform net_signature_down ''c1'' () ''hi'' ''m'' ''key'')) =
     Some example_attestation
   \<and> fst (fetchSignature net_attestation_down ''c1'' ''m'' ''key'' []) = Inr example_signature
   \<and> fst (fetchAttestation net_attestation_down ''m'' ''key'' []) =
     Inl (new_Error
       ''Failed to fetch attestation after retries: Error: Attestation fetch failed: 503'')
   \<and> vd_error
       (fst (verifyMessage example_platform net_attestation_down ''c1'' () ''hi'' ''m'' ''key'')) =
     Some (''attestation-fetch-failed: Error: Failed to fetch attestation after retries: '' @
           ''Error: Attestation fetch failed: 503'')"
proof -
  have s1: "fst (fetchSignature net_down ''c1'' ''m'' ''key'' []) =
     Inl (new_Error ''Failed to fetch signature after retries: Error: Signature fetch failed: 500'')"
    by (simp add: example_failures)
  have a1: "fst (fetchAttestation net_down ''m'' ''key'' []) =
     Inl (new_Error ''Failed to fetch attestation after retries: TypeError: fetch failed'')"
    by (simp add: example_failures)
  have s2: "fst (fetchSignature net_signature_down ''c1'' ''m'' ''key'' []) =
     Inl (new_Error ''Failed to fetch signature after retries: TypeError: fetch failed'')"
    by (simp add: example_failures)
  have a2: "fst (fetchAttestation net_signature_down ''m'' ''key'' []) = Inr example_attestation"
    by (simp add: example_fetches)
  have s3: "fst (fetchSignature net_attestation_down ''c1'' ''m'' ''key'' []) =
     Inr example_signature"
    by (simp add: example_fetches)
  have a3: "fst (fetchAttestation net_attestation_down ''m'' ''key'' []) =
     Inl (new_Error
       ''Failed to fetch attestation after retries: Error: Attestation fetch failed: 503'')"
    by (simp add: example_failures)
  note t1 = fetch_failures_are_collected
      [where net = net_down and c = "''c1''" and m = "''m''" and k = "''key''"
         and pf = example_platform and b = "()" and r = "''hi''", THEN conjunct1, rule_format,
       OF conjI, OF s1 a1]
  note t2 = fetch_failures_are_collected
      [where net = net_signature_down and c = "''c1''" and m = "''m''" and k = "''key''"
         and pf = example_platform and b = "()" and r = "''hi''",
       THEN conjunct2, THEN conjunct1, rule_format, OF conjI, OF s2 a2]
  note t3 = fetch_failures_are_collected
      [where net = net_attestation_down and c = "''c1''" and m = "''m''" and k = "''key''"
         and pf = example_platform and b = "()" and r = "''hi''",
       THEN conjunct2, THEN conjunct2, THEN conjunct1, rule_format, OF conjI, OF s3 a3]
  show ?thesis
    using s1 a1 s2 a2 s3 a3 t1 t2 t3 by (simp add: new_Error_def)
qed

section \<open>Claims about the retry policy\<close>

lemma upt_values:
  "[0..<1] = [0::nat]" "[0..<2] = [0, 1::nat]" "[0..<3] = [0, 1, 2::nat]"
  "[0..<4] = [0, 1, 2, 3::nat]"
  by code_simp+

lemma schedule_trace_values:
  "schedule_trace ep 0 = [Request ep 0]"
  "schedule_trace ep 1 = [Request ep 0, Sleep 5000, Request ep 1]"
  "schedule_trace ep 2 = [Request ep 0, Sleep 5000, Request ep 1, Sleep 10000, Request ep 2]"
  "schedule_trace ep 3 =
     [Request ep 0, Sleep 5000, Request ep 1, Sleep 10000, Request ep 2, Sleep 15000,
      Request ep 3]"
  "schedule_trace ep 4 =
     [Request ep 0, Sleep 5000, Request ep 1, Sleep 10000, Request ep 2, Sleep 15000,
      Request ep 3, Sleep 20000, Request ep 4]"
  by (simp_all add: schedule_trace_def delay_at_def backoff_def upt_values)

lemma delay_values: "map delay_at [0, 1, 2, 3, 4] = [5000, 10000, 15000, 20000, 30000]"
  by (simp add: delay_at_def backoff_def)

lemma less_numeral_cases:
  "(\<forall>i<(1::nat). P i) = P 0"
  "(\<forall>i<(2::nat). P i) = (P 0 \<and> P 1)"
  "(\<forall>i<(3::nat). P i) = (P 0 \<and> P 1 \<and> P 2)"
  "(\<forall>i<(4::nat). P i) = (P 0 \<and> P 1 \<and> P 2 \<and> P 3)"
  "(\<forall>i<(5::nat). P i) = (P 0 \<and> P 1 \<and> P 2 \<and> P 3 \<and> P 4)"
proof -
  have s: "(1::nat) = Suc 0" "(2::nat) = Suc 1" "(3::nat) = Suc 2" "(4::nat) = Suc 3"
          "(5::nat) = Suc 4"
    by simp_all
  show "(\<forall>i<(1::nat). P i) = P 0" by simp
  then show two: "(\<forall>i<(2::nat). P i) = (P 0 \<and> P 1)"
    by (subst s(2)) (auto simp only: All_less_Suc)
  then show three: "(\<forall>i<(3::nat). P i) = (P 0 \<and> P 1 \<and> P 2)"
    by (subst s(3)) (auto simp only: All_less_Suc)
  then show four: "(\<forall>i<(4::nat). P i) = (P 0 \<and> P 1 \<and> P 2 \<and> P 3)"
    by (subst s(4)) (auto simp only: All_less_Suc)
  then show "(\<forall>i<(5::nat). P i) = (P 0 \<and> P 1 \<and> P 2 \<and> P 3 \<and> P 4)"
    by (subst s(5)) (auto simp only: All_less_Suc)
qed

text \<open>All five attempts fail: the error, the trace and the time waited.\<close>

lemma fetch_loop_exhausted:
  assumes "\<forall>i<5. try_fetch ep (reply i) = Inl (es i)"
  shows "fetch_loop ep reply 0 None [] =
           (Inl (new_Error (retries_message ep @ String_thrown (es 4))), schedule_trace ep 4)"
    and "sleeps (snd (fetch_loop ep reply 0 None [])) = [5000, 10000, 15000, 20000]"
    and "waited (snd (fetch_loop ep reply 0 None [])) = 50000"
proof -
  from assms have f: "try_fetch ep (reply 0) = Inl (es 0)" "try_fetch ep (reply 1) = Inl (es 1)"
    "try_fetch ep (reply 2) = Inl (es 2)" "try_fetch ep (reply 3) = Inl (es 3)"
    "try_fetch ep (reply 4) = Inl (es 4)"
    by (simp_all add: less_numeral_cases)
  show r: "fetch_loop ep reply 0 None [] =
           (Inl (new_Error (retries_message ep @ String_thrown (es 4))), schedule_trace ep 4)"
    by (simp add: fetch_loop_unroll f schedule_trace_values del: One_nat_def)
  show "sleeps (snd (fetch_loop ep reply 0 None [])) = [5000, 10000, 15000, 20000]"
    by (simp add: r schedule_trace_values)
  then show "waited (snd (fetch_loop ep reply 0 None [])) = 50000"
    by (simp add: waited_def)
qed

text \<open>
  Every run: the trace is that of some \<open>n + 1 \<le> 5\<close> attempts of which the first \<open>n\<close>
  failed, and an error is returned only after five failures.
\<close>

lemma fetch_loop_policy:
  "\<exists>n<5. snd (fetch_loop ep reply 0 None []) = schedule_trace ep n
         \<and> (\<forall>i<n. \<exists>e. try_fetch ep (reply i) = Inl e)
         \<and> length (requests ep (snd (fetch_loop ep reply 0 None []))) = n + 1
         \<and> (case fst (fetch_loop ep reply 0 None []) of
              Inr d \<Rightarrow> try_fetch ep (reply n) = Inr d
            | Inl x \<Rightarrow> n = 4 \<and> (\<exists>e. try_fetch ep (reply 4) = Inl e
                            \<and> x = new_Error (retries_message ep @ String_thrown e)))"
proof (cases "try_fetch ep (reply 0)")
  case (Inr d)
  then show ?thesis
    by (intro exI [of _ 0]) (simp add: fetch_loop_unroll schedule_trace_values)
next
  case e0: (Inl e0)
  show ?thesis
  proof (cases "try_fetch ep (reply 1)")
    case (Inr d)
    with e0 show ?thesis
      by (intro exI [of _ 1])
         (simp add: fetch_loop_unroll schedule_trace_values del: One_nat_def)
  next
    case e1: (Inl e1)
    show ?thesis
    proof (cases "try_fetch ep (reply 2)")
      case (Inr d)
      with e0 e1 show ?thesis
        by (intro exI [of _ 2])
           (simp add: fetch_loop_unroll schedule_trace_values less_numeral_cases
              del: One_nat_def)
    next
      case e2: (Inl e2)
      show ?thesis
      proof (cases "try_fetch ep (reply 3)")
        case (Inr d)
        with e0 e1 e2 show ?thesis
          by (intro exI [of _ 3])
             (simp add: fetch_loop_unroll schedule_trace_values less_numeral_cases
                del: One_nat_def)
      next
        case e3: (Inl e3)
        show ?thesis
        proof (cases "try_fetch ep (reply 4)")
          case (Inr d)
          with e0 e1 e2 e3 show ?thesis
            by (intro exI [of _ 4])
               (simp add: fetch_loop_unroll schedule_trace_values less_numeral_cases
                  del: One_nat_def)
        next
          case e4: (Inl e4)
          with e0 e1 e2 e3 show ?thesis
            by (intro exI [of _ 4])
               (simp add: fetch_loop_unroll schedule_trace_values less_numeral_cases
                  del: One_nat_def)
        qed
      qed
    qed
  qed
qed

lemma schedule_trace_waits:
  assumes "n < 5"
  shows "sleeps (schedule_trace ep n) = take n [5000, 10000, 15000, 20000]"
    and "Sleep 30000 \<notin> set (schedule_trace ep n)"
proof -
  from assms consider "n = 0" | "n = 1" | "n = 2" | "n = 3" | "n = 4"
    by linarith
  then show "sleeps (schedule_trace ep n) = take n [5000, 10000, 15000, 20000]"
    by cases (simp_all add: schedule_trace_values schedule_trace_values(2) [unfolded One_nat_def])
  from assms consider "n = 0" | "n = 1" | "n = 2" | "n = 3" | "n = 4"
    by linarith
  then show "Sleep 30000 \<notin> set (schedule_trace ep n)"
    by cases (simp_all add: schedule_trace_values schedule_trace_values(2) [unfolded One_nat_def])
qed

text \<open>
  Every run, in full: the number of attempts, the failures before the last attempt, the
  waits made, and how the run ends.
\<close>

lemma fetch_loop_policy_full:
  "\<exists>n<5. snd (fetch_loop ep reply 0 None []) = schedule_trace ep n
         \<and> (\<forall>i<n. \<exists>e. try_fetch ep (reply i) = Inl e)
         \<and> length (requests ep (snd (fetch_loop ep reply 0 None []))) = n + 1
         \<and> sleeps (snd (fetch_loop ep reply 0 None [])) = take n [5000, 10000, 15000, 20000]
         \<and> (case fst (fetch_loop ep reply 0 None []) of
              Inr d \<Rightarrow> try_fetch ep (reply n) = Inr d
            | Inl x \<Rightarrow> n = 4 \<and> (\<exists>e. try_fetch ep (reply 4) = Inl e
                            \<and> x = JsError ''Error'' (retries_message ep @ String_thrown e)))"
proof -
  obtain n where n: "n < 5"
    "snd (fetch_loop ep reply 0 None []) = schedule_trace ep n"
    "\<forall>i<n. \<exists>e. try_fetch ep (reply i) = Inl e"
    "length (requests ep (snd (fetch_loop ep reply 0 None []))) = n + 1"
    "case fst (fetch_loop ep reply 0 None []) of
       Inr d \<Rightarrow> try_fetch ep (reply n) = Inr d
     | Inl x \<Rightarrow> n = 4 \<and> (\<exists>e. try_fetch ep (reply 4) = Inl e
                     \<and> x = new_Error (retries_message ep @ String_thrown e))"
    using fetch_loop_policy [of ep reply] by blast
  have w: "sleeps (snd (fetch_loop ep reply 0 None [])) = take n [5000, 10000, 15000, 20000]"
    by (simp only: n(2) schedule_trace_waits(1) [OF n(1)])
  from n w show ?thesis
    unfolding new_Error_def by blast
qed

lemma fetch_loop_never_30000: "Sleep 30000 \<notin> set (snd (fetch_loop ep reply 0 None []))"
  using fetch_loop_policy [of ep reply] schedule_trace_waits(2) by metis

text \<open>
  C4, as worded, fails on two points. The waits of a fetch whose five attempts all fail
  are 5000, 10000, 15000 and 20000 ms: the schedule's fifth entry, 30000 ms, is not
  among them. And what is raised is a plain \<^verbatim>\<open>Error\<close>, of no type of its own, that
  carries the last cause only as text inside its message: below the cause is a
  \<^verbatim>\<open>TypeError\<close> and the value raised is an \<^verbatim>\<open>Error\<close>.
\<close>

theorem retry_waits_and_error_counterexample:
  "sleeps (snd (fetchSignature net_down ''c1'' ''m'' ''key'' [])) = [5000, 10000, 15000, 20000]
   \<and> sleeps (snd (fetchSignature net_down ''c1'' ''m'' ''key'' []))
       \<noteq> [5000, 10000, 15000, 20000, 30000]
   \<and> Sleep 30000 \<notin> set (snd (fetchSignature net_down ''c1'' ''m'' ''key'' []))
   \<and> sleeps (snd (fetchAttestation net_down ''m'' ''key'' [])) = [5000, 10000, 15000, 20000]
   \<and> Sleep 30000 \<notin> set (snd (fetchAttestation net_down ''m'' ''key'' []))
   \<and> try_fetch AttestationEndpoint (attestation_reply net_down ''m'' ''key'' 4) =
       Inl (JsError ''TypeError'' ''fetch failed'')
   \<and> fst (fetchAttestation net_down ''m'' ''key'' []) =
       Inl (JsError ''Error''
              ''Failed to fetch attestation after retries: TypeError: fetch failed'')
   \<and> fst (fetchSignature net_down ''c1'' ''m'' ''key'' []) =
       Inl (JsError ''Error''
              ''Failed to fetch signature after retries: Error: Signature fetch failed: 500'')"
proof -
  have cause: "try_fetch AttestationEndpoint (attestation_reply net_down ''m'' ''key'' 4) =
       Inl (JsError ''TypeError'' ''fetch failed'')"
    by (simp add: try_fetch_def net_down_def)
  have runs:
    "sleeps (snd (fetchSignature net_down ''c1'' ''m'' ''key'' [])) = [5000, 10000, 15000, 20000]"
    "Sleep 30000 \<notin> set (snd (fetchSignature net_down ''c1'' ''m'' ''key'' []))"
    "sleeps (snd (fetchAttestation net_down ''m'' ''key'' [])) = [5000, 10000, 15000, 20000]"
    "Sleep 30000 \<notin> set (snd (fetchAttestation net_down ''m'' ''key'' []))"
    "fst (fetchAttestation net_down ''m'' ''key'' []) =
       Inl (JsError ''Error''
              ''Failed to fetch attestation after retries: TypeError: fetch failed'')"
    "fst (fetchSignature net_down ''c1'' ''m'' ''key'' []) =
       Inl (JsError ''Error''
              ''Failed to fetch signature after retries: Error: Signature fetch failed: 500'')"
    by (simp_all add: example_failures new_Error_def)
  from cause runs show ?thesis by simp
qed

text \<open>
  C4, amended. For the signature fetch and for the attestation fetch: at most five
  attempts are made; an attempt that fails before the last one is followed by a wait,
  and the fetch stops before the fifth attempt only at an attempt that succeeds; the
  waits between attempts 1 and 2, 2 and 3, 3 and 4, 4 and 5 are 5, 10, 15 and 20 seconds
  (the schedule's fifth entry, 30 seconds, is never waited); a fetch that fails five
  times has waited at least 50 seconds in all, the last failure not being followed by a
  wait, and then raises a plain \<^verbatim>\<open>Error\<close> whose message is the fetch's fixed prefix
  followed by the string rendering of the last attempt's cause; no error is raised in
  any other case.
\<close>

theorem evidence_fetch_retry_policy:
  "(\<exists>n<5. snd (fetchSignature net c m k []) = schedule_trace SignatureEndpoint n
          \<and> (\<forall>i<n. \<exists>e. try_fetch SignatureEndpoint (signature_reply net c m k i) = Inl e)
          \<and> length (requests SignatureEndpoint (snd (fetchSignature net c m k []))) = n + 1
          \<and> sleeps (snd (fetchSignature net c m k [])) = take n [5000, 10000, 15000, 20000]
          \<and> (case fst (fetchSignature net c m k []) of
               Inr d \<Rightarrow> try_fetch SignatureEndpoint (signature_reply net c m k n) = Inr d
             | Inl x \<Rightarrow>
                 n = 4
                 \<and> (\<exists>e. try_fetch SignatureEndpoint (signature_reply net c m k 4) = Inl e
                        \<and> x = JsError ''Error''
                                (''Failed to fetch signature after retries: '' @
                                 String_thrown e))))
   \<and> (\<exists>n<5. snd (fetchAttestation net m k []) = schedule_trace AttestationEndpoint n
          \<and> (\<forall>i<n. \<exists>e. try_fetch AttestationEndpoint (attestation_reply net m k i) = Inl e)
          \<and> length (requests AttestationEndpoint (snd (fetchAttestation net m k []))) = n + 1
          \<and> sleeps (snd (fetchAttestation net m k [])) = take n [5000, 10000, 15000, 20000]
          \<and> (case fst (fetchAttestation net m k []) of
               Inr d \<Rightarrow> try_fetch AttestationEndpoint (attestation_reply net m k n) = Inr d
             | Inl x \<Rightarrow>
                 n = 4
                 \<and> (\<exists>e. try_fetch AttestationEndpoint (attestation_reply net m k 4) = Inl e
                        \<and> x = JsError ''Error''
                                (''Failed to fetch attestation after retries: '' @
                                 String_thrown e))))
   \<and> Sleep 30000 \<notin> set (snd (fetchSignature net c m k []))
   \<and> Sleep 30000 \<notin> set (snd (fetchAttestation net m k []))
   \<and> map delay_at [0, 1, 2, 3, 4] = [5000, 10000, 15000, 20000, 30000]
   \<and> (try_fetch SignatureEndpoint (signature_reply net c m k 0) = Inl s0
      \<and> try_fetch SignatureEndpoint (signature_reply net c m k 1) = Inl s1
      \<and> try_fetch SignatureEndpoint (signature_reply net c m k 2) = Inl s2
      \<and> try_fetch SignatureEndpoint (signature_reply net c m k 3) = Inl s3
      \<and> try_fetch SignatureEndpoint (signature_reply net c m k 4) = Inl s4 \<longrightarrow>
        fetchSignature net c m k [] =
          (Inl (new_Error (''Failed to fetch signature after retries: '' @ String_thrown s4)),
           [Request SignatureEndpoint 0, Sleep 5000, Request SignatureEndpoint 1, Sleep 10000,
            Request SignatureEndpoint 2, Sleep 15000, Request SignatureEndpoint 3, Sleep 20000,
            Request SignatureEndpoint 4])
        \<and> 50000 \<le> waited (snd (fetchSignature net c m k [])))
   \<and> (try_fetch AttestationEndpoint (attestation_reply net m k 0) = Inl a0
      \<and> try_fetch AttestationEndpoint (attestation_reply net m k 1) = Inl a1
      \<and> try_fetch AttestationEndpoint (attestation_reply net m k 2) = Inl a2
      \<and> try_fetch AttestationEndpoint (attestation_reply net m k 3) = Inl a3
      \<and> try_fetch AttestationEndpoint (attestation_reply net m k 4) = Inl a4 \<longrightarrow>
        fetchAttestation net m k [] =
          (Inl (new_Error (''Failed to fetch attestation after retries: '' @ String_thrown a4)),
           [Request AttestationEndpoint 0, Sleep 5000, Request AttestationEndpoint 1,
            Sleep 10000, Request AttestationEndpoint 2, Sleep 15000,
            Request AttestationEndpoint 3, Sleep 20000, Request AttestationEndpoint 4])
        \<and> 50000 \<le> waited (snd (fetchAttestation net m k [])))
   \<and> (fst (fetchSignature net c m k []) = Inl x \<longrightarrow>
        snd (fetchSignature net c m k []) = schedule_trace SignatureEndpoint 4
        \<and> (\<exists>e. try_fetch SignatureEndpoint (signature_reply net c m k 4) = Inl e
               \<and> x = new_Error (''Failed to fetch signature after retries: '' @
                                 String_thrown e)))
   \<and> (fst (fetchAttestation net m k []) = Inl y \<longrightarrow>
        snd (fetchAttestation net m k []) = schedule_trace AttestationEndpoint 4
        \<and> (\<exists>e. try_fetch AttestationEndpoint (attestation_reply net m k 4) = Inl e
               \<and> y = new_Error (''Failed to fetch attestation after retries: '' @
                                 String_thrown e)))"
proof -
  let ?sr = "signature_reply net c m k" and ?ar = "attestation_reply net m k"
  have sp: "\<exists>n<5. snd (fetchSignature net c m k []) = schedule_trace SignatureEndpoint n
          \<and> (\<forall>i<n. \<exists>e. try_fetch SignatureEndpoint (?sr i) = Inl e)
          \<and> length (requests SignatureEndpoint (snd (fetchSignature net c m k []))) = n + 1
          \<and> sleeps (snd (fetchSignature net c m k [])) = take n [5000, 10000, 15000, 20000]
          \<and> (case fst (fetchSignature net c m k []) of
               Inr d \<Rightarrow> try_fetch SignatureEndpoint (?sr n) = Inr d
             | Inl x \<Rightarrow>
                 n = 4
                 \<and> (\<exists>e. try_fetch SignatureEndpoint (?sr 4) = Inl e
                        \<and> x = JsError ''Error''
                                (''Failed to fetch signature after retries: '' @
                                 String_thrown e)))"
    using fetch_loop_policy_full [of SignatureEndpoint ?sr]
    by (simp only: fetchSignature_def retries_message_def endpoint.case)
  have ap: "\<exists>n<5. snd (fetchAttestation net m k []) = schedule_trace AttestationEndpoint n
          \<and> (\<forall>i<n. \<exists>e. try_fetch AttestationEndpoint (?ar i) = Inl e)
          \<and> length (requests AttestationEndpoint (snd (fetchAttestation net m k []))) = n + 1
          \<and> sleeps (snd (fetchAttestation net m k [])) = take n [5000, 10000, 15000, 20000]
          \<and> (case fst (fetchAttestation net m k []) of
               Inr d \<Rightarrow> try_fetch AttestationEndpoint (?ar n) = Inr d
             | Inl x \<Rightarrow>
                 n = 4
                 \<and> (\<exists>e. try_fetch AttestationEndpoint (?ar 4) = Inl e
                        \<and> x = JsError ''Error''
                                (''Failed to fetch attestation after retries: '' @
                                 String_thrown e)))"
    using fetch_loop_policy_full [of AttestationEndpoint ?ar]
    by (simp only: fetchAttestation_def retries_message_def endpoint.case)
  have sn: "Sleep 30000 \<notin> set (snd (fetchSignature net c m k []))"
    unfolding fetchSignature_def by (rule fetch_loop_never_30000)
  have an: "Sleep 30000 \<notin> set (snd (fetchAttestation net m k []))"
    unfolding fetchAttestation_def by (rule fetch_loop_never_30000)
  have sx: "try_fetch SignatureEndpoint (?sr 0) = Inl s0
      \<and> try_fetch SignatureEndpoint (?sr 1) = Inl s1
      \<and> try_fetch SignatureEndpoint (?sr 2) = Inl s2
      \<and> try_fetch SignatureEndpoint (?sr 3) = Inl s3
      \<and> try_fetch SignatureEndpoint (?sr 4) = Inl s4 \<longrightarrow>
        fetchSignature net c m k [] =
          (Inl (new_Error (''Failed to fetch signature after retries: '' @ String_thrown s4)),
           [Request SignatureEndpoint 0, Sleep 5000, Request SignatureEndpoint 1, Sleep 10000,
            Request SignatureEndpoint 2, Sleep 15000, Request SignatureEndpoint 3, Sleep 20000,
            Request SignatureEndpoint 4])
        \<and> 50000 \<le> waited (snd (fetchSignature net c m k []))"
    by (simp add: fetchSignature_def fetch_loop_unroll retries_message_def waited_def
          del: One_nat_def)
  have ax: "try_fetch AttestationEndpoint (?ar 0) = Inl a0
      \<and> try_fetch AttestationEndpoint (?ar 1) = Inl a1
      \<and> try_fetch AttestationEndpoint (?ar 2) = Inl a2
      \<and> try_fetch AttestationEndpoint (?ar 3) = Inl a3
      \<and> try_fetch AttestationEndpoint (?ar 4) = Inl a4 \<longrightarrow>
        fetchAttestation net m k [] =
          (Inl (new_Error (''Failed to fetch attestation after retries: '' @ String_thrown a4)),
           [Request AttestationEndpoint 0, Sleep 5000, Request AttestationEndpoint 1,
            Sleep 10000, Request AttestationEndpoint 2, Sleep 15000,
            Request AttestationEndpoint 3, Sleep 20000, Request AttestationEndpoint 4])
        \<and> 50000 \<le> waited (snd (fetchAttestation net m k []))"
    by (simp add: fetchAttestation_def fetch_loop_unroll retries_message_def waited_def
          del: One_nat_def)
  have se: "fst (fetchSignature net c m k []) = Inl x \<longrightarrow>
        snd (fetchSignature net c m k []) = schedule_trace SignatureEndpoint 4
        \<and> (\<exists>e. try_fetch SignatureEndpoint (?sr 4) = Inl e
               \<and> x = new_Error (''Failed to fetch signature after retries: '' @
                                 String_thrown e))"
    using fetch_loop_policy [of SignatureEndpoint ?sr]
    unfolding fetchSignature_def by (auto simp: retries_message_def)
  have ae: "fst (fetchAttestation net m k []) = Inl y \<longrightarrow>
        snd (fetchAttestation net m k []) = schedule_trace AttestationEndpoint 4
        \<and> (\<exists>e. try_fetch AttestationEndpoint (?ar 4) = Inl e
               \<and> y = new_Error (''Failed to fetch attestation after retries: '' @
                                 String_thrown e))"
    using fetch_loop_policy [of AttestationEndpoint ?ar]
    unfolding fetchAttestation_def by (auto simp: retries_message_def)
  from sp ap sn an delay_values sx ax se ae show ?thesis by (intro conjI)
qed

theorem evidence_fetch_retry_policy_witness:
  "try_fetch SignatureEndpoint (signature_reply net_down ''c1'' ''m'' ''key'' 0) =
     Inl (new_Error ''Signature fetch failed: 500'')
   \<and> try_fetch SignatureEndpoint (signature_reply net_down ''c1'' ''m'' ''key'' 4) =
     Inl (new_Error ''Signature fetch failed: 500'')
   \<and> try_fetch AttestationEndpoint (attestation_reply net_down ''m'' ''key'' 4) =
     Inl (JsError ''TypeError'' ''fetch failed'')
   \<and> fst (fetchSignature net_down ''c1'' ''m'' ''key'' []) =
     Inl (new_Error
       ''Failed to fetch signature after retries: Error: Signature fetch failed: 500'')
   \<and> fst (fetchAttestation net_down ''m'' ''key'' []) =
     Inl (new_Error ''Failed to fetch attestation after retries: TypeError: fetch failed'')
   \<and> sleeps (snd (fetchSignature net_down ''c1'' ''m'' ''key'' [])) =
     [5000, 10000, 15000, 20000]
   \<and> 50000 \<le> waited (snd (fetchSignature net_down ''c1'' ''m'' ''key'' []))
   \<and> 50000 \<le> waited (snd (fetchAttestation net_down ''m'' ''key'' []))
   \<and> length (requests SignatureEndpoint (snd (fetchSignature net_down ''c1'' ''m'' ''key'' [])))
     = 5
   \<and> length (requests SignatureEndpoint
               (snd (fetchSignature net_signature_retry ''c1'' ''m'' ''key'' []))) = 2
   \<and> sleeps (snd (fetchSignature net_signature_retry ''c1'' ''m'' ''key'' [])) = [5000]"
proof -
  have s: "try_fetch SignatureEndpoint (signature_reply net_down ''c1'' ''m'' ''key'' i) =
             Inl (new_Error ''Signature fetch failed: 500'')" for i
    by (simp add: try_fetch_def net_down_def not_ok_message_def string_of_nat.simps
          digit_char_def)
  have a: "try_fetch AttestationEndpoint (attestation_reply net_down ''m'' ''key'' i) =
             Inl (JsError ''TypeError'' ''fetch failed'')" for i
    by (simp add: try_fetch_def net_down_def)
  note t = evidence_fetch_retry_policy
      [where net = net_down and c = "''c1''" and m = "''m''" and k = "''key''"
         and ?s0.0 = "new_Error ''Signature fetch failed: 500''"
         and ?s1.0 = "new_Error ''Signature fetch failed: 500''"
         and ?s2.0 = "new_Error ''Signature fetch failed: 500''"
         and ?s3.0 = "new_Error ''Signature fetch failed: 500''"
         and ?s4.0 = "new_Error ''Signature fetch failed: 500''"
         and ?a0.0 = "JsError ''TypeError'' ''fetch failed''"
         and ?a1.0 = "JsError ''TypeError'' ''fetch failed''"
         and ?a2.0 = "JsError ''TypeError'' ''fetch failed''"
         and ?a3.0 = "JsError ''TypeError'' ''fetch failed''"
         and ?a4.0 = "JsError ''TypeError'' ''fetch failed''"]
  from t s have sd: "fetchSignature net_down ''c1'' ''m'' ''key'' [] =
          (Inl (new_Error (''Failed to fetch signature after retries: '' @
                           String_thrown (new_Error ''Signature fetch failed: 500''))),
           [Request SignatureEndpoint 0, Sleep 5000, Request SignatureEndpoint 1, Sleep 10000,
            Request SignatureEndpoint 2, Sleep 15000, Request SignatureEndpoint 3, Sleep 20000,
            Request SignatureEndpoint 4])
        \<and> 50000 \<le> waited (snd (fetchSignature net_down ''c1'' ''m'' ''key'' []))"
    by blast
  from t a have ad: "fetchAttestation net_down ''m'' ''key'' [] =
          (Inl (new_Error (''Failed to fetch attestation after retries: '' @
                           String_thrown (JsError ''TypeError'' ''fetch failed''))),
           [Request AttestationEndpoint 0, Sleep 5000, Request AttestationEndpoint 1,
            Sleep 10000, Request AttestationEndpoint 2, Sleep 15000,
            Request AttestationEndpoint 3, Sleep 20000, Request AttestationEndpoint 4])
        \<and> 50000 \<le> waited (snd (fetchAttestation net_down ''m'' ''key'' []))"
    by blast
  show ?thesis
    using s [of 0] s [of 4] a [of 4] sd ad
    by (simp add: new_Error_def example_fetches waited_def)
qed

section \<open>Claims about signature validation\<close>

text \<open>
  C3, as worded, fails on a record whose self-reported text is the empty string: the
  field is present, yet \<^verbatim>\<open>sig.text || sig.signedHash || expectedHash\<close> passes over it.
  The validator then recovers the signer from the canonical payload and returns true,
  while the recovery over the record's own (empty) text gives another identity.
\<close>

theorem validateSignature_empty_text_counterexample:
  "sig_text (example_signature\<lparr>sig_text := Some ''''\<rparr>) = Some ''''
   \<and> stated_signed_text (example_signature\<lparr>sig_text := Some ''''\<rparr>) ''04:04'' = ''''
   \<and> signedPayload (example_signature\<lparr>sig_text := Some ''''\<rparr>) ''04:04'' = ''04:04''
   \<and> validateSignature example_recover
         (Some (example_signature\<lparr>sig_text := Some ''''\<rparr>)) ''04:04''
   \<and> map_option toLowerCase
         (example_recover
            (stated_signed_text (example_signature\<lparr>sig_text := Some ''''\<rparr>) ''04:04'')
            (sig_signature (example_signature\<lparr>sig_text := Some ''''\<rparr>)))
       = Some ''0xffff''
   \<and> map_option toLowerCase (stated_address (example_signature\<lparr>sig_text := Some ''''\<rparr>))
       = Some ''0xabcd''"
  by (simp add: example_signature_def stated_signed_text_def stated_address_def
        signedPayload_def js_or_str_def validateSignature_def expectedAddr_def js_or_def
        truthy_def example_recover_def toLowerCase_def lower_char_def)

text \<open>
  C3, amended. The signed text is the record's self-reported text if that is present
  and not empty, else its legacy signed-hash field if that is present and not empty,
  else the canonical payload. The declared identity is the signing address if that is
  present and not empty, else the public key field. The validator returns true exactly
  when the recovery from the signature over the signed text succeeds, a declared
  identity exists and is not empty, and the two are equal after lower-casing. A
  recovery that throws gives false, as does an absent record.
\<close>

theorem validateSignature_selection_and_verdict:
  "signedPayload s p =
     (case sig_text s of
        Some (x # xs) \<Rightarrow> x # xs
      | _ \<Rightarrow> (case signedHash s of Some (y # ys) \<Rightarrow> y # ys | _ \<Rightarrow> p))
   \<and> expectedAddr s =
     (case signing_address s of Some (x # xs) \<Rightarrow> Some (x # xs) | _ \<Rightarrow> signerPublicKey s)
   \<and> (validateSignature recover (Some s) p \<longleftrightarrow>
        (\<exists>recovered a. recover (signedPayload s p) (sig_signature s) = Some recovered
            \<and> expectedAddr s = Some a \<and> a \<noteq> []
            \<and> toLowerCase recovered = toLowerCase a))
   \<and> (recover (signedPayload s p) (sig_signature s) = None \<longrightarrow>
        \<not> validateSignature recover (Some s) p)
   \<and> \<not> validateSignature recover None p"
proof -
  have sel: "signedPayload s p =
     (case sig_text s of
        Some (x # xs) \<Rightarrow> x # xs
      | _ \<Rightarrow> (case signedHash s of Some (y # ys) \<Rightarrow> y # ys | _ \<Rightarrow> p))"
    by (simp add: signedPayload_def js_or_str_def split: option.splits list.splits)
  have addr: "expectedAddr s =
     (case signing_address s of Some (x # xs) \<Rightarrow> Some (x # xs) | _ \<Rightarrow> signerPublicKey s)"
    by (simp add: expectedAddr_def js_or_def truthy_def split: option.splits list.splits)
  have verdict: "validateSignature recover (Some s) p \<longleftrightarrow>
        (\<exists>recovered a. recover (signedPayload s p) (sig_signature s) = Some recovered
            \<and> expectedAddr s = Some a \<and> a \<noteq> []
            \<and> toLowerCase recovered = toLowerCase a)"
    by (simp add: validateSignature_def split: option.splits)
  have throws: "recover (signedPayload s p) (sig_signature s) = None \<longrightarrow>
        \<not> validateSignature recover (Some s) p"
    by (simp add: validateSignature_def)
  have absent: "\<not> validateSignature recover None p"
    by (simp add: validateSignature_def)
  from sel addr verdict throws absent show ?thesis by (intro conjI)
qed

theorem validateSignature_selection_and_verdict_witness:
  "example_recover
     (signedPayload (example_signature\<lparr>sig_signature := ''junk''\<rparr>) ''04:04'')
     (sig_signature (example_signature\<lparr>sig_signature := ''junk''\<rparr>)) = None
   \<and> \<not> validateSignature example_recover
         (Some (example_signature\<lparr>sig_signature := ''junk''\<rparr>)) ''04:04''
   \<and> signedPayload (example_signature\<lparr>sig_text := Some ''aa:bb''\<rparr>) ''04:04'' = ''aa:bb''
   \<and> \<not> validateSignature example_recover
         (Some (example_signature\<lparr>sig_text := Some ''aa:bb''\<rparr>)) ''04:04''
   \<and> validateSignature example_recover (Some example_signature) ''04:04''"
proof -
  let ?junk = "example_signature\<lparr>sig_signature := ''junk''\<rparr>"
  let ?other = "example_signature\<lparr>sig_text := Some ''aa:bb''\<rparr>"
  have n: "example_recover (signedPayload ?junk ''04:04'') (sig_signature ?junk) = None"
    by (simp add: example_signature_def example_recover_def)
  note t = validateSignature_selection_and_verdict
  from t [of ?junk "''04:04''" example_recover] n
  have j: "\<not> validateSignature example_recover (Some ?junk) ''04:04''"
    by blast
  from t [of ?other "''04:04''" example_recover]
  have o: "signedPayload ?other ''04:04'' = ''aa:bb''"
    by (simp add: example_signature_def)
  from t [of ?other "''04:04''" example_recover] o
  have o': "\<not> validateSignature example_recover (Some ?other) ''04:04''"
    by (simp add: example_signature_def example_recover_def toLowerCase_def lower_char_def)
  from n j o o' example_signature_valid show ?thesis by (intro conjI)
qed

section \<open>Claims about the caller's deadline\<close>

lemma race_timeout_cases:
  "race_timeout tie Never = Inl (new_Error ''verification-timeout'')"
  "verificationTimeoutMs < t \<Longrightarrow>
     race_timeout tie (Settles t r) = Inl (new_Error ''verification-timeout'')"
  "t < verificationTimeoutMs \<Longrightarrow> race_timeout tie (Settles t r) = r"
  by (simp_all add: race_timeout_def)

lemma run_async_bind:
  "run_async sha256 (bind_async p f) = run_async sha256 (f (run_async sha256 p))"
  by (induction p) auto

lemma awaits_bind:
  "awaits sha256 (bind_async p f) = awaits sha256 p + awaits sha256 (f (run_async sha256 p))"
  by (induction p) auto

lemma computeHash_async_run:
  "run_async sha256 (computeHash_async data) = computeHash sha256 data"
  "awaits sha256 (computeHash_async data) = 1"
  by (simp_all add: computeHash_async_def computeHash_def)

lemma timeout_hashes_async_run:
  "run_async (digest_SHA256 pf) (timeout_hashes_async pf b rtext) =
     (computeHash (digest_SHA256 pf) (JSON_stringify pf b @ [CHR 0x0A, CHR 0x0A]),
      computeHash (digest_SHA256 pf) (rtext @ [CHR 0x0A, CHR 0x0A]))"
  by (simp add: timeout_hashes_async_def run_async_bind computeHash_async_run)

lemma timeout_hashes_async_awaits:
  "awaits sha256 (timeout_hashes_async pf b rtext) = 2"
  by (simp add: timeout_hashes_async_def awaits_bind computeHash_async_run)

lemma timeout_hashes_async_suspends: "\<not> synchronous (timeout_hashes_async pf b rtext)"
  by (simp add: timeout_hashes_async_def computeHash_async_def synchronous_def)

text \<open>
  C5, as worded, fails on two points. The \<^verbatim>\<open>catch\<close> branch stores
  \<^verbatim>\<open>String(e)\<close> of the timer's \<^verbatim>\<open>Error\<close> object, which is
  \<open>Error: verification-timeout\<close>, not \<open>verification-timeout\<close>. And the hashes of that
  branch are not computed synchronously: each is awaited from the asynchronous
  \<^verbatim>\<open>computeHash\<close>, so the computation suspends twice before the record is built.
\<close>

theorem timeout_record_counterexample:
  "message_status
     (verification_task example_platform net_ok True None [pending_message] ''m1''
        (Some ''c1'') () ''hi'' ''key'' ! 0) = Some Failed
   \<and> map_option vd_error
       (message_verification
          (verification_task example_platform net_ok True None [pending_message] ''m1''
             (Some ''c1'') () ''hi'' ''key'' ! 0)) = Some (Some ''Error: verification-timeout'')
   \<and> map_option vd_error
       (message_verification
          (verification_task example_platform net_ok True None [pending_message] ''m1''
             (Some ''c1'') () ''hi'' ''key'' ! 0)) \<noteq> Some (Some ''verification-timeout'')
   \<and> \<not> synchronous (timeout_hashes_async example_platform () ''hi'')
   \<and> awaits (digest_SHA256 example_platform) (timeout_hashes_async example_platform () ''hi'') = 2
   \<and> run_async (digest_SHA256 example_platform) (timeout_hashes_async example_platform () ''hi'')
       = (''04'', ''04'')
   \<and> map_option vd_requestHash
       (message_verification
          (verification_task example_platform net_ok True None [pending_message] ''m1''
             (Some ''c1'') () ''hi'' ''key'' ! 0)) = Some ''04''
   \<and> map_option vd_responseHash
       (message_verification
          (verification_task example_platform net_ok True None [pending_message] ''m1''
             (Some ''c1'') () ''hi'' ''key'' ! 0)) = Some ''04''"
proof -
  note h = example_platform_def computeHash_def encode_def padStart2_def toString16_def
    hex_digit_def
  have stored: "message_status
     (verification_task example_platform net_ok True None [pending_message] ''m1''
        (Some ''c1'') () ''hi'' ''key'' ! 0) = Some Failed"
    "map_option vd_error
       (message_verification
          (verification_task example_platform net_ok True None [pending_message] ''m1''
             (Some ''c1'') () ''hi'' ''key'' ! 0)) = Some (Some ''Error: verification-timeout'')"
    "map_option vd_requestHash
       (message_verification
          (verification_task example_platform net_ok True None [pending_message] ''m1''
             (Some ''c1'') () ''hi'' ''key'' ! 0)) = Some ''04''"
    "map_option vd_responseHash
       (message_verification
          (verification_task example_platform net_ok True None [pending_message] ''m1''
             (Some ''c1'') () ''hi'' ''key'' ! 0)) = Some ''04''"
    by (simp_all add: verification_task_def truthy_def race_timeout_def new_Error_def
          pending_message_def message_status_def message_verification_def set_verification_def
          failed_record_def Let_def js_or_str_def h)
  have async: "\<not> synchronous (timeout_hashes_async example_platform () ''hi'')"
    "awaits (digest_SHA256 example_platform) (timeout_hashes_async example_platform () ''hi'') = 2"
    by (simp_all only: timeout_hashes_async_suspends timeout_hashes_async_awaits not_False_eq_True)
  have result:
    "run_async (digest_SHA256 example_platform) (timeout_hashes_async example_platform () ''hi'')
       = (''04'', ''04'')"
    by (simp only: timeout_hashes_async_run) (simp add: h)
  have differs: "map_option vd_error
       (message_verification
          (verification_task example_platform net_ok True None [pending_message] ''m1''
             (Some ''c1'') () ''hi'' ''key'' ! 0)) \<noteq> Some (Some ''verification-timeout'')"
    by (simp only: stored(2)) simp
  from stored(1) stored(2) differs async result stored(3) stored(4)
  show ?thesis by (intro conjI)
qed

lemma sleeps_append: "sleeps (xs @ ys) = sleeps xs @ sleeps ys"
  by (induction xs rule: sleeps.induct) simp_all

lemma requests_append: "requests ep (xs @ ys) = requests ep xs @ requests ep ys"
  by (induction ep xs rule: requests.induct) simp_all

lemma waited_append: "waited (xs @ ys) = waited xs + waited ys"
  by (simp add: waited_def sleeps_append)

lemma verification_task_nth:
  assumes "chatId = Some cid" "cid \<noteq> []" "apiKey \<noteq> []" "i < length messages"
    and "msg_id (messages ! i) = messageId"
  shows "verification_task pf net tie settles messages messageId chatId b rtext apiKey ! i =
     (case race_timeout tie
             (case settles of
                None \<Rightarrow> Never
              | Some t \<Rightarrow> Settles t (Inr (fst (verifyMessage pf net cid b rtext NEAR_MODEL apiKey))))
      of Inr data \<Rightarrow>
           (messages ! i)\<lparr>metadata :=
              Some (set_verification data (if vd_verified data then Verified else Failed)
                      (metadata (messages ! i)))\<rparr>
       | Inl e \<Rightarrow>
           (messages ! i)\<lparr>metadata :=
              Some (set_verification
                      (failed_record pf e cid b rtext (metadata (messages ! i)))
                      Failed (metadata (messages ! i)))\<rparr>)"
  using assms
  by (simp add: verification_task_def truthy_def js_or_str_def Let_def split: sum.splits)

text \<open>
  C5, amended. The task races \<^verbatim>\<open>verifyMessage\<close> against a timer of 30000 ms, a
  constant that does not depend on the retry schedule (five failed signature attempts
  alone wait longer); whichever settles first wins. If \<^verbatim>\<open>verifyMessage\<close> never
  settles, or settles after the deadline, the attempt still ends: the message is
  \<open>Failed\<close> with a record whose error string is \<open>Error: verification-timeout\<close>, whose
  \<open>verified\<close> is false and whose hashes are those of the request and the response with
  two newlines appended; these hashes are not computed synchronously but awaited, one
  after the other, from the asynchronous hash function, with two suspensions. If
  \<^verbatim>\<open>verifyMessage\<close> settles before the deadline, its record is stored and decides
  the status.
\<close>

theorem deadline_race:
  assumes "chatId = Some cid" and "cid \<noteq> []" and "apiKey \<noteq> []"
    and "i < length messages" and "msg_id (messages ! i) = messageId"
  shows "verificationTimeoutMs = 30000
   \<and> ((settles = None \<or> (\<exists>t. settles = Some t \<and> verificationTimeoutMs < t)) \<longrightarrow>
        message_status
          (verification_task pf net tie settles messages messageId chatId b rtext apiKey ! i)
          = Some Failed
        \<and> (\<exists>v. message_verification
                  (verification_task pf net tie settles messages messageId chatId b rtext apiKey ! i)
                  = Some v
               \<and> vd_error v = Some ''Error: verification-timeout''
               \<and> \<not> vd_verified v
               \<and> vd_requestHash v =
                   computeHash (digest_SHA256 pf) (JSON_stringify pf b @ [CHR 0x0A, CHR 0x0A])
               \<and> vd_responseHash v =
                   computeHash (digest_SHA256 pf) (rtext @ [CHR 0x0A, CHR 0x0A])
               \<and> (vd_requestHash v, vd_responseHash v) =
                   run_async (digest_SHA256 pf) (timeout_hashes_async pf b rtext)))
   \<and> awaits (digest_SHA256 pf) (timeout_hashes_async pf b rtext) = 2
   \<and> \<not> synchronous (timeout_hashes_async pf b rtext)
   \<and> ((\<exists>t. settles = Some t \<and> t < verificationTimeoutMs) \<longrightarrow>
        message_verification
          (verification_task pf net tie settles messages messageId chatId b rtext apiKey ! i)
          = Some (fst (verifyMessage pf net cid b rtext NEAR_MODEL apiKey))
        \<and> message_status
            (verification_task pf net tie settles messages messageId chatId b rtext apiKey ! i)
          = Some (if vd_verified (fst (verifyMessage pf net cid b rtext NEAR_MODEL apiKey))
                  then Verified else Failed))
   \<and> ((\<exists>e0 e1 e2 e3 e4.
          try_fetch SignatureEndpoint (signature_reply net cid NEAR_MODEL apiKey 0) = Inl e0
        \<and> try_fetch SignatureEndpoint (signature_reply net cid NEAR_MODEL apiKey 1) = Inl e1
        \<and> try_fetch SignatureEndpoint (signature_reply net cid NEAR_MODEL apiKey 2) = Inl e2
        \<and> try_fetch SignatureEndpoint (signature_reply net cid NEAR_MODEL apiKey 3) = Inl e3
        \<and> try_fetch SignatureEndpoint (signature_reply net cid NEAR_MODEL apiKey 4) = Inl e4)
       \<longrightarrow> verificationTimeoutMs
             < waited (snd (verifyMessage pf net cid b rtext NEAR_MODEL apiKey)))"
proof -
  let ?task = "verification_task pf net tie settles messages messageId chatId b rtext apiKey"
  note nth = verification_task_nth [OF assms, of pf net tie settles b rtext]
  have late: "(settles = None \<or> (\<exists>t. settles = Some t \<and> verificationTimeoutMs < t)) \<longrightarrow>
        message_status (?task ! i) = Some Failed
        \<and> (\<exists>v. message_verification (?task ! i) = Some v
               \<and> vd_error v = Some ''Error: verification-timeout''
               \<and> \<not> vd_verified v
               \<and> vd_requestHash v =
                   computeHash (digest_SHA256 pf) (JSON_stringify pf b @ [CHR 0x0A, CHR 0x0A])
               \<and> vd_responseHash v =
                   computeHash (digest_SHA256 pf) (rtext @ [CHR 0x0A, CHR 0x0A])
               \<and> (vd_requestHash v, vd_responseHash v) =
                   run_async (digest_SHA256 pf) (timeout_hashes_async pf b rtext))"
    by (auto simp: nth race_timeout_cases message_status_def message_verification_def
          set_verification_def failed_record_def Let_def new_Error_def
          timeout_hashes_async_run)
  have early: "(\<exists>t. settles = Some t \<and> t < verificationTimeoutMs) \<longrightarrow>
        message_verification (?task ! i)
          = Some (fst (verifyMessage pf net cid b rtext NEAR_MODEL apiKey))
        \<and> message_status (?task ! i)
          = Some (if vd_verified (fst (verifyMessage pf net cid b rtext NEAR_MODEL apiKey))
                  then Verified else Failed)"
    by (auto simp: nth race_timeout_cases message_status_def message_verification_def
          set_verification_def)
  have budget: "(\<exists>e0 e1 e2 e3 e4.
          try_fetch SignatureEndpoint (signature_reply net cid NEAR_MODEL apiKey 0) = Inl e0
        \<and> try_fetch SignatureEndpoint (signature_reply net cid NEAR_MODEL apiKey 1) = Inl e1
        \<and> try_fetch SignatureEndpoint (signature_reply net cid NEAR_MODEL apiKey 2) = Inl e2
        \<and> try_fetch SignatureEndpoint (signature_reply net cid NEAR_MODEL apiKey 3) = Inl e3
        \<and> try_fetch SignatureEndpoint (signature_reply net cid NEAR_MODEL apiKey 4) = Inl e4)
       \<longrightarrow> verificationTimeoutMs
             < waited (snd (verifyMessage pf net cid b rtext NEAR_MODEL apiKey))"
  proof
    assume "\<exists>e0 e1 e2 e3 e4.
          try_fetch SignatureEndpoint (signature_reply net cid NEAR_MODEL apiKey 0) = Inl e0
        \<and> try_fetch SignatureEndpoint (signature_reply net cid NEAR_MODEL apiKey 1) = Inl e1
        \<and> try_fetch SignatureEndpoint (signature_reply net cid NEAR_MODEL apiKey 2) = Inl e2
        \<and> try_fetch SignatureEndpoint (signature_reply net cid NEAR_MODEL apiKey 3) = Inl e3
        \<and> try_fetch SignatureEndpoint (signature_reply net cid NEAR_MODEL apiKey 4) = Inl e4"
    then have "waited (snd (fetchSignature net cid NEAR_MODEL apiKey [])) = 50000"
      by (auto simp: fetchSignature_def fetch_loop_unroll waited_def simp del: One_nat_def)
    then show "verificationTimeoutMs
             < waited (snd (verifyMessage pf net cid b rtext NEAR_MODEL apiKey))"
      by (simp add: verifyMessage_trace waited_append verificationTimeoutMs_def)
  qed
  from late early budget timeout_hashes_async_awaits [of "digest_SHA256 pf" pf b rtext]
       timeout_hashes_async_suspends [of pf b rtext]
  show ?thesis
    by (simp add: verificationTimeoutMs_def)
qed

theorem deadline_race_witness:
  "message_status
     (verification_task example_platform net_ok True None [pending_message] ''m1''
        (Some ''c1'') () ''hi'' ''key'' ! 0) = Some Failed
   \<and> message_status
     (verification_task example_platform net_ok True (Some 100) [pending_message] ''m1''
        (Some ''c1'') () ''hi'' ''key'' ! 0)
     = Some (if vd_verified (fst (verifyMessage example_platform net_ok ''c1'' () ''hi''
                                    NEAR_MODEL ''key''))
             then Verified else Failed)
   \<and> (30000::nat) < waited (snd (verifyMessage example_platform net_down ''c1'' () ''hi''
                                    NEAR_MODEL ''key''))"
proof -
  have a: "Some ''c1'' = Some ''c1''" "''c1'' \<noteq> []" "''key'' \<noteq> []"
    "0 < length [pending_message]" "msg_id ([pending_message] ! 0) = ''m1''"
    by (simp_all add: pending_message_def)
  note t = deadline_race [OF a]
  have f: "try_fetch SignatureEndpoint (signature_reply net_down ''c1'' NEAR_MODEL ''key'' j) =
             Inl (new_Error ''Signature fetch failed: 500'')" for j
    by (simp add: try_fetch_def net_down_def not_ok_message_def string_of_nat.simps
          digit_char_def)
  from t [of None example_platform net_ok True "()" "''hi''"]
  have late: "message_status
     (verification_task example_platform net_ok True None [pending_message] ''m1''
        (Some ''c1'') () ''hi'' ''key'' ! 0) = Some Failed"
    by blast
  from t [of "Some 100" example_platform net_ok True "()" "''hi''"]
  have early: "message_status
     (verification_task example_platform net_ok True (Some 100) [pending_message] ''m1''
        (Some ''c1'') () ''hi'' ''key'' ! 0)
     = Some (if vd_verified (fst (verifyMessage example_platform net_ok ''c1'' () ''hi''
                                    NEAR_MODEL ''key''))
             then Verified else Failed)"
    by (simp add: verificationTimeoutMs_def)
  from t [of None example_platform net_down True "()" "''hi''"] f
  have budget: "(30000::nat) < waited (snd (verifyMessage example_platform net_down ''c1'' ()
                                              ''hi'' NEAR_MODEL ''key''))"
    by (metis (no_types))
  from late early budget show ?thesis by (intro conjI)
qed

section \<open>Claims about the order of the two fetches\<close>

lemma requests_schedule_trace:
  "requests ep (schedule_trace ep' n) = (if ep = ep' then [0..<Suc n] else [])"
proof -
  have "requests ep (concat (map (\<lambda>i. [Request ep' i, Sleep (delay_at i)]) [0..<j])) =
          (if ep = ep' then [0..<j] else [])" for j
    by (induction j) (simp_all add: requests_append)
  then show ?thesis
    by (simp add: schedule_trace_def requests_append)
qed

lemma fetch_traces:
  "\<exists>n<5. snd (fetchSignature net c m k []) = schedule_trace SignatureEndpoint n"
  "\<exists>n<5. snd (fetchAttestation net m k []) = schedule_trace AttestationEndpoint n"
  using fetch_loop_policy [of SignatureEndpoint "signature_reply net c m k"]
        fetch_loop_policy [of AttestationEndpoint "attestation_reply net m k"]
  unfolding fetchSignature_def fetchAttestation_def by blast+

text \<open>
  C8, as worded, fails: the two fetches are not issued concurrently. When the first
  signature attempt fails, the attestation request is made only after the 5000 ms wait
  and the second signature attempt.
\<close>

theorem sequential_fetch_counterexample:
  "snd (verifyMessage example_platform net_signature_retry ''c1'' () ''hi'' ''m'' ''key'') =
     [Request SignatureEndpoint 0, Sleep 5000, Request SignatureEndpoint 1,
      Request AttestationEndpoint 0]
   \<and> \<not> issued_concurrently
         (snd (verifyMessage example_platform net_signature_retry ''c1'' () ''hi'' ''m'' ''key''))"
  by (simp add: verifyMessage_trace example_fetches issued_concurrently_def
        issued_before_any_wait_def)

text \<open>
  C8, amended. The signature fetch runs to its end, with all its retries and waits,
  before the attestation fetch is issued: the trace of an attempt is the whole trace of
  the signature fetch followed by the whole trace of the attestation fetch. The
  attestation fetch is issued whatever the outcome of the signature fetch, its result
  does not depend on that outcome, and both results are in hand before reconciliation:
  the record stores the one and the other.
\<close>

theorem fetches_run_in_sequence:
  "snd (verifyMessage pf net c b r m k) =
     snd (fetchSignature net c m k []) @ snd (fetchAttestation net m k [])
   \<and> requests AttestationEndpoint (snd (fetchSignature net c m k [])) = []
   \<and> requests SignatureEndpoint (snd (fetchAttestation net m k [])) = []
   \<and> requests SignatureEndpoint (snd (verifyMessage pf net c b r m k)) \<noteq> []
   \<and> requests AttestationEndpoint (snd (verifyMessage pf net c b r m k)) \<noteq> []
   \<and> vd_signature (fst (verifyMessage pf net c b r m k)) =
       (case fst (fetchSignature net c m k []) of Inl e \<Rightarrow> None | Inr s \<Rightarrow> Some s)
   \<and> vd_attestation (fst (verifyMessage pf net c b r m k)) =
       (case fst (fetchAttestation net m k []) of Inl e \<Rightarrow> None | Inr a \<Rightarrow> Some a)
   \<and> (vd_requestHash (fst (verifyMessage pf net c b r m k)),
       vd_responseHash (fst (verifyMessage pf net c b r m k))) =
      reconcile (local_hashes pf b r)
        (case fst (fetchSignature net c m k []) of Inl e \<Rightarrow> None | Inr s \<Rightarrow> Some s)"
proof -
  obtain ns where ns: "snd (fetchSignature net c m k []) = schedule_trace SignatureEndpoint ns"
    using fetch_traces(1) by blast
  obtain na where na: "snd (fetchAttestation net m k []) = schedule_trace AttestationEndpoint na"
    using fetch_traces(2) by blast
  have tr: "snd (verifyMessage pf net c b r m k) =
     snd (fetchSignature net c m k []) @ snd (fetchAttestation net m k [])"
    by (rule verifyMessage_trace)
  have r1: "requests AttestationEndpoint (snd (fetchSignature net c m k [])) = []"
    by (simp add: ns requests_schedule_trace)
  have r2: "requests SignatureEndpoint (snd (fetchAttestation net m k [])) = []"
    by (simp add: na requests_schedule_trace)
  have r3: "requests SignatureEndpoint (snd (verifyMessage pf net c b r m k)) \<noteq> []"
    by (simp add: tr requests_append ns requests_schedule_trace del: upt_Suc)
  have r4: "requests AttestationEndpoint (snd (verifyMessage pf net c b r m k)) \<noteq> []"
    by (simp add: tr requests_append na requests_schedule_trace del: upt_Suc)
  have h: "(vd_requestHash (fst (verifyMessage pf net c b r m k)),
       vd_responseHash (fst (verifyMessage pf net c b r m k))) =
      reconcile (local_hashes pf b r)
        (case fst (fetchSignature net c m k []) of Inl e \<Rightarrow> None | Inr s \<Rightarrow> Some s)"
    by (simp only: verifyMessage_hashes verifyMessage_signature)
  from tr r1 r2 r3 r4 verifyMessage_signature [of pf net c b r m k]
       verifyMessage_attestation [of pf net c b r m k] h
  show ?thesis by (intro conjI)
qed

theorem fetches_run_in_sequence_witness:
  "snd (verifyMessage example_platform net_down ''c1'' () ''hi'' ''m'' ''key'') =
     [Request SignatureEndpoint 0, Sleep 5000, Request SignatureEndpoint 1, Sleep 10000,
      Request SignatureEndpoint 2, Sleep 15000, Request SignatureEndpoint 3, Sleep 20000,
      Request SignatureEndpoint 4,
      Request AttestationEndpoint 0, Sleep 5000, Request AttestationEndpoint 1, Sleep 10000,
      Request AttestationEndpoint 2, Sleep 15000, Request AttestationEndpoint 3, Sleep 20000,
      Request AttestationEndpoint 4]"
  using fetches_run_in_sequence
          [of example_platform net_down "''c1''" "()" "''hi''" "''m''" "''key''"]
  by (simp add: example_failures)

section \<open>The hex rendering of the digest\<close>

text \<open>
  What \<^verbatim>\<open>computeHash\<close> adds to the platform's digest: two lowercase hex characters
  for each byte, so 64 characters for the 32 bytes of a SHA-256 digest. That the digests
  of a payload and of the payload with two newlines appended differ is a property of
  SHA-256 itself, which this development takes as a parameter.
\<close>

lemma byte_hex_length: "length (padStart2 (toString16 b)) = 2"
  by (simp add: padStart2_def toString16_def Let_def)

lemma computeHash_length:
  "length (computeHash sha256 data) = 2 * length (sha256 (encode data))"
proof -
  have "length (concat (map (\<lambda>b. padStart2 (toString16 b)) bs)) = 2 * length bs" for bs
    by (induction bs) (simp_all add: byte_hex_length)
  then show ?thesis by (simp add: computeHash_def)
qed

lemma computeHash_length_64:
  "length (sha256 (encode data)) = 32 \<Longrightarrow> length (computeHash sha256 data) = 64"
  by (simp add: computeHash_length)

lemma hex_digit_lowercase: "d < 16 \<Longrightarrow> hex_digit d \<in> set ''0123456789abcdef''"
proof -
  assume "d < 16"
  then have "d < length ''0123456789abcdef''" by simp
  then have "''0123456789abcdef'' ! d \<in> set ''0123456789abcdef''"
    by (rule nth_mem)
  with \<open>d < 16\<close> show ?thesis by (simp only: hex_digit_def if_True)
qed

lemma byte_hex_lowercase: "set (padStart2 (toString16 b)) \<subseteq> set ''0123456789abcdef''"
proof -
  have "unat b < 256"
    using unsigned_less [of b, where ?'a = nat] by simp
  then have hi: "unat b div 16 < 16" and lo: "unat b mod 16 < 16"
    by simp_all
  have "set (toString16 b) \<subseteq> set ''0123456789abcdef''"
    using hex_digit_lowercase [OF hi] hex_digit_lowercase [OF lo]
          hex_digit_lowercase [of "unat b"]
    by (auto simp: toString16_def Let_def)
  moreover have "CHR ''0'' \<in> set ''0123456789abcdef''" by simp
  ultimately show ?thesis
    by (auto simp: padStart2_def simp del: set_simps)
qed

lemma computeHash_lowercase_hex:
  "set (computeHash sha256 data) \<subseteq> set ''0123456789abcdef''"
  using byte_hex_lowercase by (auto simp: computeHash_def simp del: set_simps)

end
